theory Spec2Isabelle
  imports Complex_Main
begin

section \<open>Data model\<close>

text \<open>
  JavaScript numbers are modelled as real numbers (no NaN, no infinities). The
  additions and subtractions of the MoveTool round as IEEE 754 binary64 arithmetic does
  (see \<open>round64\<close> below); elsewhere the arithmetic is exact.
  \<open>null\<close> in an elevation field is \<open>None\<close>.
  A property that an object may lack altogether is an \<open>option\<close> whose \<open>None\<close> is
  JavaScript's \<open>undefined\<close>.
\<close>

record latlng =
  lat :: real
  lng :: real

text \<open>Screen coordinates \<open>{ x, y }\<close> in pixels.\<close>

record screen_point =
  sx :: real
  sy :: real

text \<open>A vertex of a line: \<open>{ lat, lng, elev }\<close> (PolylineTool.add).\<close>

record vertex = latlng +
  elev :: "real option"

text \<open>PointsTool entity: \<open>{ lat, lng, elev, color, symbol }\<close>.\<close>

record point =
  pt_lat :: real
  pt_lng :: real
  pt_elev :: "real option"
  pt_color :: string
  pt_symbol :: string

text \<open>PolylineTool entity: \<open>{ points, color, style }\<close>.\<close>

record line =
  ln_points :: "vertex list"
  ln_color :: string
  ln_style :: string

text \<open>PolygonTool entity: \<open>{ points, color, alpha }\<close>; its vertices are \<open>{ lat, lng }\<close>.\<close>

record polygon =
  pg_points :: "latlng list"
  pg_color :: string
  pg_alpha :: real

text \<open>SectorTool entity: \<open>{ center, radius, bearing, elev, color, angle }\<close>.\<close>

record sector =
  sc_center :: latlng
  sc_radius :: real
  sc_bearing :: real
  sc_elev :: "real option"
  sc_color :: string
  sc_angle :: real

text \<open>
  TextTool entity. A draft made by \<open>add\<close> is \<open>{ lat, lng, value, color, size }\<close> (the
  spread of the style snapshot); an imported one is \<open>{ lat, lng, text, color, size }\<close>.
  \<open>tx_text = None\<close> and \<open>tx_value = None\<close> mean that the object has no such property.
\<close>

record text_item =
  tx_lat :: real
  tx_lng :: real
  tx_value :: "string option"
  tx_text :: "string option"
  tx_color :: string
  tx_size :: real

section \<open>utils/geometry.js\<close>

definition EARTH_RADIUS :: real where
  "EARTH_RADIUS = 6378137"

definition toRad :: "real \<Rightarrow> real" where
  "toRad degrees = degrees * pi / 180"

definition toDeg :: "real \<Rightarrow> real" where
  "toDeg radians = radians * 180 / pi"

text \<open>\<open>Math.atan2(y, x)\<close> on real numbers (there is no negative zero here).\<close>

definition atan2 :: "real \<Rightarrow> real \<Rightarrow> real" where
  "atan2 y x =
     (if 0 < x then arctan (y / x)
      else if x < 0 then (if 0 \<le> y then arctan (y / x) + pi else arctan (y / x) - pi)
      else if 0 < y then pi / 2
      else if y < 0 then - pi / 2
      else 0)"

text \<open>The haversine great-circle distance of \<open>distance(a, b)\<close>.\<close>

definition distance :: "'a latlng_scheme \<Rightarrow> 'b latlng_scheme \<Rightarrow> real" where
  "distance a b =
     (let dLat = toRad (lat b - lat a);
          dLng = toRad (lng b - lng a);
          sinLat = sin (dLat / 2);
          sinLng = sin (dLng / 2);
          c = sinLat * sinLat + cos (toRad (lat a)) * cos (toRad (lat b)) * sinLng * sinLng
      in 2 * EARTH_RADIUS * atan2 (sqrt c) (sqrt (1 - c)))"

text \<open>
  \<open>polylineLength(points)\<close>: the \<open>for\<close> loop with its counter \<open>i\<close> and its
  accumulator \<open>total\<close> (here \<open>tot\<close>). The loop is only entered when \<open>points.length \<ge> 2\<close>.
  (For an empty array \<open>length - 1\<close> is -1 in the code and 0 here; no index is below
  either.)
\<close>

function polylineLength_loop :: "'a latlng_scheme list \<Rightarrow> nat \<Rightarrow> real \<Rightarrow> real" where
  "polylineLength_loop pts i tot =
     (if i < length pts - 1
      then polylineLength_loop pts (i + 1)
             (tot + distance (pts ! i) (pts ! (i + 1)))
      else tot)"
  by pat_completeness auto
termination
  by (relation "measure (\<lambda>(pts, i, tot). length pts - 1 - i)") auto

definition polylineLength :: "'a latlng_scheme list \<Rightarrow> real" where
  "polylineLength pts =
     (if length pts < 2 then 0 else polylineLength_loop pts 0 0)"

text \<open>
  \<open>Number.prototype.toFixed(f)\<close> on a real number: an optional minus sign, then the
  integer \<open>n\<close> nearest to \<open>x * 10^f\<close> (the larger one on a tie) written in decimal, padded
  with zeros to at least \<open>f + 1\<close> digits, with the point before the last \<open>f\<close> digits. The
  exponent notation that the built-in switches to from \<open>10^21\<close> on is outside this model.
\<close>

definition digit :: "nat \<Rightarrow> char" where
  "digit d = ''0123456789'' ! d"

function decimal :: "nat \<Rightarrow> string" where
  "decimal n = (if n < 10 then [digit n] else decimal (n div 10) @ [digit (n mod 10)])"
  by pat_completeness auto
termination
  by (relation "measure (\<lambda>n. n)") auto

definition toFixed :: "real \<Rightarrow> nat \<Rightarrow> string" where
  "toFixed x f =
     (let s = (if x < 0 then ''-'' else '''');
          n = nat \<lfloor>\<bar>x\<bar> * 10 ^ f + 1 / 2\<rfloor>;
          m = decimal n;
          m = (if f \<noteq> 0 \<and> length m \<le> f then replicate (f + 1 - length m) CHR ''0'' @ m else m)
      in if f = 0 then s @ m
         else s @ take (length m - f) m @ ''.'' @ drop (length m - f) m)"

text \<open>\<open>formatDistance(meters, decimals = 2)\<close>.\<close>

definition formatDistance :: "real \<Rightarrow> nat \<Rightarrow> string" where
  "formatDistance meters decimals =
     (if meters < 1000 then toFixed meters decimals @ '' m''
      else toFixed (meters / 1000) decimals @ '' km'')"

text \<open>\<open>project(center, dist, brg)\<close>: the destination point, as \<open>(lat, lng)\<close> in degrees.\<close>

definition project :: "latlng \<Rightarrow> real \<Rightarrow> real \<Rightarrow> latlng" where
  "project center dst brg =
     (let b = toRad brg;
          lat1 = toRad (lat center);
          lng1 = toRad (lng center);
          lat2 = arcsin (sin lat1 * cos (dst / EARTH_RADIUS)
                         + cos lat1 * sin (dst / EARTH_RADIUS) * cos b);
          lng2 = lng1 + atan2 (sin b * sin (dst / EARTH_RADIUS) * cos lat1)
                              (cos (dst / EARTH_RADIUS) - sin lat1 * sin lat2)
      in \<lparr>lat = toDeg lat2, lng = toDeg lng2\<rparr>)"

text \<open>A GeoJSON position \<open>[lng, lat]\<close>.\<close>

type_synonym position = "real \<times> real"

text \<open>
  \<open>sectorCoordinates(sector)\<close>: the loop \<open>for (a = -angle / 2; a <= angle / 2; a += step)\<close>
  with \<open>step = 3\<close>, between the two copies of the centre.
\<close>

function sectorCoordinates_loop :: "sector \<Rightarrow> real \<Rightarrow> position list \<Rightarrow> position list" where
  "sectorCoordinates_loop s a coords =
     (if a \<le> sc_angle s / 2
      then (let p = project (sc_center s) (sc_radius s) (sc_bearing s + a)
            in sectorCoordinates_loop s (a + 3) (coords @ [(lng p, lat p)]))
      else coords)"
  by pat_completeness auto
termination
proof (relation "measure (\<lambda>(s, a, coords). nat \<lceil>(sc_angle s / 2 - a) / 3 + 1\<rceil>)")
  show "wf (measure (\<lambda>(s, a, coords). nat \<lceil>(sc_angle s / 2 - a) / 3 + 1\<rceil>))"
    by simp
next
  fix s :: sector and a :: real and coords :: "position list" and x :: latlng
  assume le: "a \<le> sc_angle s / 2"
  have pos: "0 < \<lceil>(sc_angle s / 2 - a) / 3 + 1\<rceil>"
    using le by (simp add: less_ceiling_iff)
  have step: "(sc_angle s / 2 - (a + 3)) / 3 + 1 = ((sc_angle s / 2 - a) / 3 + 1) - 1"
    by (simp add: field_simps)
  have "\<lceil>(sc_angle s / 2 - (a + 3)) / 3 + 1\<rceil> = \<lceil>(sc_angle s / 2 - a) / 3 + 1\<rceil> - 1"
    unfolding step by (metis ceiling_diff_one)
  with pos show "((s, a + 3, coords @ [(lng x, lat x)]), (s, a, coords))
      \<in> measure (\<lambda>(s, a, coords). nat \<lceil>(sc_angle s / 2 - a) / 3 + 1\<rceil>)"
    by simp
qed

definition sectorCoordinates :: "sector \<Rightarrow> position list" where
  "sectorCoordinates s =
     sectorCoordinates_loop s (- sc_angle s / 2) [(lng (sc_center s), lat (sc_center s))]
       @ [(lng (sc_center s), lat (sc_center s))]"

text \<open>
  \<open>polygonArea(points)\<close>: the shoelace loop over \<open>i\<close> with \<open>j = (i + 1) % length\<close>.
\<close>

function polygonArea_loop :: "'a latlng_scheme list \<Rightarrow> nat \<Rightarrow> real \<Rightarrow> real" where
  "polygonArea_loop pts i area =
     (if i < length pts
      then (let j = (i + 1) mod length pts
            in polygonArea_loop pts (i + 1)
                 (area + lng (pts ! i) * lat (pts ! j) - lng (pts ! j) * lat (pts ! i)))
      else area)"
  by pat_completeness auto
termination
  by (relation "measure (\<lambda>(pts, i, area). length pts - i)") auto

definition polygonArea :: "'a latlng_scheme list \<Rightarrow> real" where
  "polygonArea pts =
     (if length pts < 3 then 0
      else \<bar>polygonArea_loop pts 0 0\<bar> / 2 * 111320 * 111320)"

section \<open>utils/drawing.js\<close>

text \<open>\<open>Math.hypot(a, b)\<close>.\<close>

definition hypot :: "real \<Rightarrow> real \<Rightarrow> real" where
  "hypot a b = sqrt (a * a + b * b)"

text \<open>\<open>distToSegment(p, a, b)\<close>: distance from \<open>p\<close> to the segment from \<open>a\<close> to \<open>b\<close>.\<close>

definition distToSegment :: "screen_point \<Rightarrow> screen_point \<Rightarrow> screen_point \<Rightarrow> real" where
  "distToSegment p a b =
     (let dx = sx b - sx a;
          dy = sy b - sy a
      in if dx = 0 \<and> dy = 0 then hypot (sx p - sx a) (sy p - sy a)
         else (let t = ((sx p - sx a) * dx + (sy p - sy a) * dy) / (dx * dx + dy * dy);
                   clamped = max 0 (min 1 t);
                   x = sx a + clamped * dx;
                   y = sy a + clamped * dy
               in hypot (sx p - x) (sy p - y)))"

section \<open>core/StyleManager.js\<close>

record point_style =
  ps_color :: string
  ps_symbol :: string

record line_style =
  ls_color :: string
  ls_style :: string

record polygon_style =
  gs_color :: string
  gs_alpha :: real

record sector_style =
  ss_color :: string
  ss_angle :: real

text \<open>The text style has the keys \<open>value\<close>, \<open>color\<close> and \<open>size\<close>; it has no key \<open>text\<close>.\<close>

record text_style =
  ts_value :: string
  ts_color :: string
  ts_size :: real

record styles =
  st_points :: point_style
  st_line :: line_style
  st_polygon :: polygon_style
  st_sector :: sector_style
  st_text :: text_style

text \<open>The styles set by the constructor of \<open>StyleManager\<close>.\<close>

definition StyleManager_new :: styles where
  "StyleManager_new =
     \<lparr>st_points = \<lparr>ps_color = ''black'', ps_symbol = ''circle''\<rparr>,
      st_line = \<lparr>ls_color = ''black'', ls_style = ''solid''\<rparr>,
      st_polygon = \<lparr>gs_color = ''green'', gs_alpha = 25 / 100\<rparr>,
      st_sector = \<lparr>ss_color = ''black'', ss_angle = 60\<rparr>,
      st_text = \<lparr>ts_value = [], ts_color = ''black'', ts_size = 14\<rparr>\<rparr>"

text \<open>
  \<open>updateProperty(toolName, property, value)\<close> for the three bindings of the text form
  (\<open>UIManager.bindOption\<close> with \<open>'value'\<close>, \<open>'color'\<close> and \<open>'size'\<close>).
\<close>

definition updateProperty_text_value :: "string \<Rightarrow> styles \<Rightarrow> styles" where
  "updateProperty_text_value v st = st\<lparr>st_text := (st_text st)\<lparr>ts_value := v\<rparr>\<rparr>"

definition updateProperty_text_color :: "string \<Rightarrow> styles \<Rightarrow> styles" where
  "updateProperty_text_color v st = st\<lparr>st_text := (st_text st)\<lparr>ts_color := v\<rparr>\<rparr>"

definition updateProperty_text_size :: "real \<Rightarrow> styles \<Rightarrow> styles" where
  "updateProperty_text_size v st = st\<lparr>st_text := (st_text st)\<lparr>ts_size := v\<rparr>\<rparr>"

section \<open>The tools\<close>

text \<open>
  Exceptions are values. \<open>TypeError\<close> is JavaScript's; \<open>OutsideModel\<close> is not an
  exception: it marks the places where the code would go on with \<open>undefined\<close> or \<open>NaN\<close> in
  a numeric field, which the typed entities above cannot hold.
\<close>

datatype error = TypeError | OutsideModel

text \<open>
  Each tool owns its committed collection (\<open>this.items\<close>, aliased as \<open>points\<close>,
  \<open>lines\<close>, \<open>polygons\<close>, \<open>sectors\<close> or \<open>texts\<close>), its \<open>_draft\<close> and, for lines and
  polygons, \<open>_hover\<close>. Nothing assigns \<open>_draft\<close> in PointsTool, so it has none here.
  The asynchronous elevation callbacks of \<open>add\<close> are not part of \<open>add\<close>.
\<close>

record points_tool =
  points :: "point list"

record polyline_tool =
  lines :: "line list"
  ln_draft :: "line option"
  ln_hover :: "latlng option"

record polygon_tool =
  polygons :: "polygon list"
  pg_draft :: "polygon option"
  pg_hover :: "latlng option"

record sector_tool =
  sectors :: "sector list"
  sc_draft :: "sector option"

record text_tool =
  texts :: "text_item list"
  tx_draft :: "text_item option"

subsection \<open>tools/PointsTool.js\<close>

definition PointsTool_add :: "styles \<Rightarrow> latlng \<Rightarrow> points_tool \<Rightarrow> points_tool" where
  "PointsTool_add st latlng t =
     t\<lparr>points := points t @
        [\<lparr>pt_lat = lat latlng, pt_lng = lng latlng, pt_elev = None,
          pt_color = ps_color (st_points st), pt_symbol = ps_symbol (st_points st)\<rparr>]\<rparr>"

subsection \<open>tools/PolylineTool.js\<close>

definition PolylineTool_add :: "styles \<Rightarrow> latlng \<Rightarrow> polyline_tool \<Rightarrow> polyline_tool" where
  "PolylineTool_add st latlng t =
     (let d = (case ln_draft t of
                 None \<Rightarrow> \<lparr>ln_points = [], ln_color = ls_color (st_line st),
                           ln_style = ls_style (st_line st)\<rparr>
               | Some d \<Rightarrow> d);
          p = \<lparr>lat = lat latlng, lng = lng latlng, elev = None\<rparr>
      in t\<lparr>ln_draft := Some (d\<lparr>ln_points := ln_points d @ [p]\<rparr>)\<rparr>)"

definition PolylineTool_finish :: "polyline_tool \<Rightarrow> polyline_tool" where
  "PolylineTool_finish t =
     (let t1 = (case ln_draft t of
                  Some d \<Rightarrow> if length (ln_points d) > 1
                            then t\<lparr>lines := lines t @ [d]\<rparr> else t
                | None \<Rightarrow> t)
      in t1\<lparr>ln_draft := None, ln_hover := None\<rparr>)"

definition PolylineTool_onMouseMove :: "latlng \<Rightarrow> polyline_tool \<Rightarrow> polyline_tool" where
  "PolylineTool_onMouseMove latlng t =
     (case ln_draft t of Some d \<Rightarrow> t\<lparr>ln_hover := Some latlng\<rparr> | None \<Rightarrow> t)"

subsection \<open>tools/PolygonTool.js\<close>

definition PolygonTool_add :: "styles \<Rightarrow> latlng \<Rightarrow> polygon_tool \<Rightarrow> polygon_tool" where
  "PolygonTool_add st latlng t =
     (let d = (case pg_draft t of
                 None \<Rightarrow> \<lparr>pg_points = [], pg_color = gs_color (st_polygon st),
                           pg_alpha = gs_alpha (st_polygon st)\<rparr>
               | Some d \<Rightarrow> d)
      in t\<lparr>pg_draft := Some (d\<lparr>pg_points := pg_points d
                                  @ [\<lparr>lat = lat latlng, lng = lng latlng\<rparr>]\<rparr>)\<rparr>)"

text \<open>
  \<open>finish()\<close>: \<open>this._draft?.points.length > 2\<close> is false when there is no draft
  (\<open>undefined > 2\<close>).
\<close>

definition PolygonTool_finish :: "polygon_tool \<Rightarrow> polygon_tool" where
  "PolygonTool_finish t =
     (let t1 = (case pg_draft t of
                  Some d \<Rightarrow> if length (pg_points d) > 2
                            then t\<lparr>polygons := polygons t @ [d]\<rparr> else t
                | None \<Rightarrow> t)
      in t1\<lparr>pg_draft := None, pg_hover := None\<rparr>)"

definition PolygonTool_onMouseMove :: "latlng \<Rightarrow> polygon_tool \<Rightarrow> polygon_tool" where
  "PolygonTool_onMouseMove latlng t =
     (case pg_draft t of Some d \<Rightarrow> t\<lparr>pg_hover := Some latlng\<rparr> | None \<Rightarrow> t)"

subsection \<open>tools/SectorTool.js\<close>

definition SectorTool_add :: "styles \<Rightarrow> latlng \<Rightarrow> sector_tool \<Rightarrow> sector_tool" where
  "SectorTool_add st latlng t =
     (case sc_draft t of
        None \<Rightarrow> t\<lparr>sc_draft := Some
                  \<lparr>sc_center = \<lparr>lat = lat latlng, lng = lng latlng\<rparr>, sc_radius = 0,
                   sc_bearing = 0, sc_elev = None, sc_color = ss_color (st_sector st),
                   sc_angle = ss_angle (st_sector st)\<rparr>\<rparr>
      | Some d \<Rightarrow> t\<lparr>sectors := sectors t @ [d], sc_draft := None\<rparr>)"

text \<open>The inherited \<open>BaseTool.finish\<close>: a draft is pushed as it is.\<close>

definition SectorTool_finish :: "sector_tool \<Rightarrow> sector_tool" where
  "SectorTool_finish t =
     (case sc_draft t of
        Some d \<Rightarrow> t\<lparr>sectors := sectors t @ [d], sc_draft := None\<rparr>
      | None \<Rightarrow> t)"

subsection \<open>tools/TextTool.js\<close>

text \<open>
  \<open>add\<close>: the draft is \<open>{ lat, lng, ...getStyleSnapshot('text') }\<close>, that is
  \<open>{ lat, lng, value, color, size }\<close>. It has no property \<open>text\<close>.
\<close>

definition TextTool_add :: "styles \<Rightarrow> latlng \<Rightarrow> text_tool \<Rightarrow> text_tool" where
  "TextTool_add st latlng t =
     t\<lparr>tx_draft := Some
         \<lparr>tx_lat = lat latlng, tx_lng = lng latlng, tx_value = Some (ts_value (st_text st)),
          tx_text = None, tx_color = ts_color (st_text st), tx_size = ts_size (st_text st)\<rparr>\<rparr>"

text \<open>
  \<open>String.prototype.trim\<close> on a string of 8-bit characters: tab, line feed, vertical tab,
  form feed, carriage return, space and no-break space are white space.
\<close>

definition is_white_space :: "char \<Rightarrow> bool" where
  "is_white_space c = (c \<in> set [CHR 0x09, CHR 0x0A, CHR 0x0B, CHR 0x0C, CHR 0x0D, CHR '' '',
                                 CHR 0xA0])"

definition trim :: "string \<Rightarrow> string" where
  "trim s = rev (dropWhile is_white_space (rev (dropWhile is_white_space s)))"

text \<open>
  \<open>finish()\<close>: \<open>this._draft && this._draft.text.trim() !== ''\<close>. When the draft has no
  property \<open>text\<close>, \<open>this._draft.text\<close> is \<open>undefined\<close> and \<open>.trim()\<close> throws a
  TypeError before \<open>this._draft = null\<close> is reached.
\<close>

definition TextTool_finish :: "text_tool \<Rightarrow> error + text_tool" where
  "TextTool_finish t =
     (case tx_draft t of
        None \<Rightarrow> Inr (t\<lparr>tx_draft := None\<rparr>)
      | Some d \<Rightarrow>
          (case tx_text d of
             None \<Rightarrow> Inl TypeError
           | Some s \<Rightarrow>
               if trim s \<noteq> [] then Inr (t\<lparr>texts := texts t @ [d], tx_draft := None\<rparr>)
               else Inr (t\<lparr>tx_draft := None\<rparr>)))"

subsection \<open>The tool objects\<close>

text \<open>
  MoveTool and DeleteTool have no collection. The fields of the MoveTool (\<open>_target\<close>,
  \<open>_origin\<close>, \<open>_start\<close>) are kept in a record of their own, outside the registry that
  the tool reads.
\<close>

datatype tool =
    PointsTool points_tool
  | PolylineTool polyline_tool
  | PolygonTool polygon_tool
  | SectorTool sector_tool
  | TextTool text_tool
  | MoveTool
  | DeleteTool

fun isMoveTool :: "tool \<Rightarrow> bool" where
  "isMoveTool MoveTool = True"
| "isMoveTool _ = False"

text \<open>\<open>BaseTool.clear()\<close>: \<open>this.items.length = 0; this._draft = null\<close>.\<close>

fun BaseTool_clear :: "tool \<Rightarrow> tool" where
  "BaseTool_clear (PointsTool t) = PointsTool (t\<lparr>points := []\<rparr>)"
| "BaseTool_clear (PolylineTool t) = PolylineTool (t\<lparr>lines := [], ln_draft := None\<rparr>)"
| "BaseTool_clear (PolygonTool t) = PolygonTool (t\<lparr>polygons := [], pg_draft := None\<rparr>)"
| "BaseTool_clear (SectorTool t) = SectorTool (t\<lparr>sectors := [], sc_draft := None\<rparr>)"
| "BaseTool_clear (TextTool t) = TextTool (t\<lparr>texts := [], tx_draft := None\<rparr>)"
| "BaseTool_clear MoveTool = MoveTool"
| "BaseTool_clear DeleteTool = DeleteTool"

text \<open>\<open>BaseTool.cancel()\<close>: \<open>this._draft = null\<close>.\<close>

fun BaseTool_cancel :: "tool \<Rightarrow> tool" where
  "BaseTool_cancel (PointsTool t) = PointsTool t"
| "BaseTool_cancel (PolylineTool t) = PolylineTool (t\<lparr>ln_draft := None\<rparr>)"
| "BaseTool_cancel (PolygonTool t) = PolygonTool (t\<lparr>pg_draft := None\<rparr>)"
| "BaseTool_cancel (SectorTool t) = SectorTool (t\<lparr>sc_draft := None\<rparr>)"
| "BaseTool_cancel (TextTool t) = TextTool (t\<lparr>tx_draft := None\<rparr>)"
| "BaseTool_cancel MoveTool = MoveTool"
| "BaseTool_cancel DeleteTool = DeleteTool"

text \<open>\<open>BaseTool.isDrawing()\<close>: \<open>this._draft !== null\<close>.\<close>

fun isDrawing :: "tool \<Rightarrow> bool" where
  "isDrawing (PointsTool t) = False"
| "isDrawing (PolylineTool t) = (ln_draft t \<noteq> None)"
| "isDrawing (PolygonTool t) = (pg_draft t \<noteq> None)"
| "isDrawing (SectorTool t) = (sc_draft t \<noteq> None)"
| "isDrawing (TextTool t) = (tx_draft t \<noteq> None)"
| "isDrawing MoveTool = False"
| "isDrawing DeleteTool = False"

section \<open>core/ToolManager.js\<close>

text \<open>
  \<open>this.tools\<close> is a JavaScript \<open>Map\<close> from names to tool objects or \<open>null\<close>: an
  association list in insertion order. A tool object is referred to by its key.
\<close>

type_synonym registry = "(string \<times> tool option) list"

record tool_manager =
  tools :: registry
  activeTool :: "string option"
  registrationOrder :: "string list"

definition ToolManager_new :: tool_manager where
  "ToolManager_new = \<lparr>tools = [], activeTool = None, registrationOrder = []\<rparr>"

text \<open>\<open>Map.prototype.set\<close>: an existing key keeps its place, a new one goes last.\<close>

fun Map_set :: "string \<Rightarrow> 'v \<Rightarrow> (string \<times> 'v) list \<Rightarrow> (string \<times> 'v) list" where
  "Map_set k v [] = [(k, v)]"
| "Map_set k v ((k', v') # m) = (if k' = k then (k, v) # m else (k', v') # Map_set k v m)"

text \<open>\<open>register(name, tool)\<close>; \<open>!this.activeTool\<close> also holds for the empty name.\<close>

definition register :: "string \<Rightarrow> tool option \<Rightarrow> tool_manager \<Rightarrow> tool_manager" where
  "register name tool tm =
     tm\<lparr>tools := Map_set name tool (tools tm),
        registrationOrder := (if name \<in> set (registrationOrder tm) then registrationOrder tm
                              else registrationOrder tm @ [name]),
        activeTool := (if activeTool tm = None \<or> activeTool tm = Some [] then Some name
                       else activeTool tm)\<rparr>"

text \<open>\<open>getAllTools()\<close>: the values that are not \<open>null\<close>, each with its key.\<close>

fun getAllTools_of :: "registry \<Rightarrow> (string \<times> tool) list" where
  "getAllTools_of [] = []"
| "getAllTools_of ((n, None) # m) = getAllTools_of m"
| "getAllTools_of ((n, Some t) # m) = (n, t) # getAllTools_of m"

definition getAllTools :: "tool_manager \<Rightarrow> (string \<times> tool) list" where
  "getAllTools tm = getAllTools_of (tools tm)"

definition excludeNames :: "string list" where
  "excludeNames = [''explore'', ''move'', ''delete'']"

text \<open>\<open>getDrawingTools()\<close>.\<close>

definition getDrawingTools :: "tool_manager \<Rightarrow> (string \<times> tool) list" where
  "getDrawingTools tm = filter (\<lambda>(name, tool). name \<notin> set excludeNames) (getAllTools tm)"

text \<open>
  The body of the loop of \<open>clearAllData\<close>: every collection array the tool has is
  truncated. \<open>_draft\<close> and \<open>_hover\<close> are not touched.
\<close>

fun clearAllData_tool :: "tool \<Rightarrow> tool" where
  "clearAllData_tool (PointsTool t) = PointsTool (t\<lparr>points := []\<rparr>)"
| "clearAllData_tool (PolylineTool t) = PolylineTool (t\<lparr>lines := []\<rparr>)"
| "clearAllData_tool (PolygonTool t) = PolygonTool (t\<lparr>polygons := []\<rparr>)"
| "clearAllData_tool (SectorTool t) = SectorTool (t\<lparr>sectors := []\<rparr>)"
| "clearAllData_tool (TextTool t) = TextTool (t\<lparr>texts := []\<rparr>)"
| "clearAllData_tool MoveTool = MoveTool"
| "clearAllData_tool DeleteTool = DeleteTool"

text \<open>
  \<open>clearAllData()\<close>: the loop runs over \<open>getDrawingTools()\<close>, that is over the entries
  whose key is not excluded and whose value is not \<open>null\<close>, and mutates each in place.
\<close>

definition clearAllData :: "tool_manager \<Rightarrow> tool_manager" where
  "clearAllData tm =
     tm\<lparr>tools := map (\<lambda>(name, tool). if name \<notin> set excludeNames
                                         then (name, map_option clearAllData_tool tool)
                                         else (name, tool)) (tools tm)\<rparr>"

text \<open>Mutation of the tool object registered under a key.\<close>

definition update_tool :: "string \<Rightarrow> (tool \<Rightarrow> tool) \<Rightarrow> tool_manager \<Rightarrow> tool_manager" where
  "update_tool name f tm =
     tm\<lparr>tools := map (\<lambda>(k, v). if k = name then (k, map_option f v) else (k, v)) (tools tm)\<rparr>"

text \<open>The registry built by \<open>main.js\<close>, here with the five drawing tools given.\<close>

definition main_registry ::
  "points_tool \<Rightarrow> polyline_tool \<Rightarrow> polygon_tool \<Rightarrow> sector_tool \<Rightarrow> text_tool \<Rightarrow> tool_manager" where
  "main_registry pts lns pgs scs txs =
     register ''delete'' (Some DeleteTool)
       (register ''move'' (Some MoveTool)
         (register ''text'' (Some (TextTool txs))
           (register ''sector'' (Some (SectorTool scs))
             (register ''polygon'' (Some (PolygonTool pgs))
               (register ''line'' (Some (PolylineTool lns))
                 (register ''points'' (Some (PointsTool pts))
                   (register ''explore'' None ToolManager_new)))))))"

text \<open>Freshly constructed tools: empty collections, no draft, no hover.\<close>

definition fresh_registry :: tool_manager where
  "fresh_registry =
     main_registry \<lparr>points = []\<rparr>
       \<lparr>lines = [], ln_draft = None, ln_hover = None\<rparr>
       \<lparr>polygons = [], pg_draft = None, pg_hover = None\<rparr>
       \<lparr>sectors = [], sc_draft = None\<rparr>
       \<lparr>texts = [], tx_draft = None\<rparr>"

section \<open>utils/hitDetection.js\<close>

text \<open>
  The detector holds the map, of which only \<open>latLngToScreen\<close> is used (a function of
  \<open>lat\<close> and \<open>lng\<close>, supplied by the map library), and the tolerance in pixels.
\<close>

record hit_detector =
  latLngToScreen :: "real \<Rightarrow> real \<Rightarrow> screen_point"
  tolerance :: real

text \<open>An item of a collection, of one of the five shapes that \<open>hitTest\<close> tells apart.\<close>

datatype entity =
    EPoint point
  | EText text_item
  | ELine line
  | EPolygon polygon
  | ESector sector

definition distancePx :: "screen_point \<Rightarrow> screen_point \<Rightarrow> real" where
  "distancePx a b = (let dx = sx b - sx a; dy = sy b - sy a in sqrt (dx * dx + dy * dy))"

text \<open>\<open>hitTestPoint(point, mousePx)\<close>, given \<open>point.lat\<close> and \<open>point.lng\<close>.\<close>

definition hitTestPoint :: "hit_detector \<Rightarrow> real \<Rightarrow> real \<Rightarrow> screen_point \<Rightarrow> bool" where
  "hitTestPoint h plat plng mousePx =
     (distancePx mousePx (latLngToScreen h plat plng) < tolerance h)"

definition hitTestSector :: "hit_detector \<Rightarrow> sector \<Rightarrow> screen_point \<Rightarrow> bool" where
  "hitTestSector h s mousePx =
     (distancePx mousePx (latLngToScreen h (lat (sc_center s)) (lng (sc_center s)))
        < tolerance h)"

text \<open>
  \<open>hitTestPolyline(item, mousePx)\<close> on \<open>item.points\<close>: the loop over
  \<open>i < points.length - 1\<close>, which tests the segment from \<open>points[i]\<close> to
  \<open>points[i + 1]\<close>.
\<close>

function hitTestPolyline_loop ::
  "hit_detector \<Rightarrow> 'a latlng_scheme list \<Rightarrow> screen_point \<Rightarrow> nat \<Rightarrow> bool" where
  "hitTestPolyline_loop h pts mousePx i =
     (if i < length pts - 1
      then (let a = latLngToScreen h (lat (pts ! i)) (lng (pts ! i));
                b = latLngToScreen h (lat (pts ! (i + 1))) (lng (pts ! (i + 1)))
            in if distToSegment mousePx a b < tolerance h then True
               else hitTestPolyline_loop h pts mousePx (i + 1))
      else False)"
  by pat_completeness auto
termination
  by (relation "measure (\<lambda>(h, pts, mousePx, i). length pts - 1 - i)") auto

definition hitTestPolyline :: "hit_detector \<Rightarrow> 'a latlng_scheme list \<Rightarrow> screen_point \<Rightarrow> bool" where
  "hitTestPolyline h pts mousePx =
     (if length pts < 2 then False else hitTestPolyline_loop h pts mousePx 0)"

text \<open>
  \<open>hitTest(item, mousePx)\<close>: a point or a text has \<open>lat\<close> and no \<open>points\<close>, a sector
  has \<open>center\<close>, a line or a polygon has the array \<open>points\<close>.
\<close>

fun hitTest :: "hit_detector \<Rightarrow> entity \<Rightarrow> screen_point \<Rightarrow> bool" where
  "hitTest h (EPoint p) mousePx = hitTestPoint h (pt_lat p) (pt_lng p) mousePx"
| "hitTest h (EText t) mousePx = hitTestPoint h (tx_lat t) (tx_lng t) mousePx"
| "hitTest h (ESector s) mousePx = hitTestSector h s mousePx"
| "hitTest h (ELine l) mousePx = hitTestPolyline h (ln_points l) mousePx"
| "hitTest h (EPolygon g) mousePx = hitTestPolyline h (pg_points g) mousePx"

text \<open>
  \<open>extractItems(tool)\<close>: \<open>tool.items || tool.points || ... || []\<close>. Every tool made
  from BaseTool has the array \<open>items\<close> (an array is truthy, also when empty), which is
  its committed collection; MoveTool and DeleteTool have none of these properties.
\<close>

fun extractItems :: "tool \<Rightarrow> entity list" where
  "extractItems (PointsTool t) = map EPoint (points t)"
| "extractItems (PolylineTool t) = map ELine (lines t)"
| "extractItems (PolygonTool t) = map EPolygon (polygons t)"
| "extractItems (SectorTool t) = map ESector (sectors t)"
| "extractItems (TextTool t) = map EText (texts t)"
| "extractItems MoveTool = []"
| "extractItems DeleteTool = []"

text \<open>\<open>extractList(tool)\<close>: \<open>tool.points || tool.texts || ... || null\<close>.\<close>

fun extractList :: "tool \<Rightarrow> entity list option" where
  "extractList (PointsTool t) = Some (map EPoint (points t))"
| "extractList (TextTool t) = Some (map EText (texts t))"
| "extractList (PolylineTool t) = Some (map ELine (lines t))"
| "extractList (PolygonTool t) = Some (map EPolygon (polygons t))"
| "extractList (SectorTool t) = Some (map ESector (sectors t))"
| "extractList MoveTool = None"
| "extractList DeleteTool = None"

text \<open>
  The inner loops of \<open>pick\<close> and \<open>pickForDelete\<close>: the index of the first item of the
  array that is hit.
\<close>

fun first_hit :: "hit_detector \<Rightarrow> screen_point \<Rightarrow> entity list \<Rightarrow> nat option" where
  "first_hit h mousePx [] = None"
| "first_hit h mousePx (item # items) =
     (if hitTest h item mousePx then Some 0
      else map_option Suc (first_hit h mousePx items))"

text \<open>
  \<open>pick(latlng, tools)\<close>. It returns the item object; here the item comes with its place
  (the key of its tool and its index), which stands for the identity of the object.
\<close>

fun pick_loop ::
  "hit_detector \<Rightarrow> screen_point \<Rightarrow> (string \<times> tool) list \<Rightarrow> (string \<times> nat \<times> entity) option" where
  "pick_loop h mousePx [] = None"
| "pick_loop h mousePx ((name, tool) # ts) =
     (case first_hit h mousePx (extractItems tool) of
        Some i \<Rightarrow> Some (name, i, extractItems tool ! i)
      | None \<Rightarrow> pick_loop h mousePx ts)"

definition pick ::
  "hit_detector \<Rightarrow> latlng \<Rightarrow> (string \<times> tool) list \<Rightarrow> (string \<times> nat \<times> entity) option" where
  "pick h latlng ts = pick_loop h (latLngToScreen h (lat latlng) (lng latlng)) ts"

text \<open>
  \<open>pickForDelete(latlng, tools)\<close>: \<open>{ tool: list, index: i }\<close>, the array being named by
  the key of the tool that owns it.
\<close>

fun pickForDelete_loop ::
  "hit_detector \<Rightarrow> screen_point \<Rightarrow> (string \<times> tool) list \<Rightarrow> (string \<times> nat) option" where
  "pickForDelete_loop h mousePx [] = None"
| "pickForDelete_loop h mousePx ((name, tool) # ts) =
     (case extractList tool of
        None \<Rightarrow> pickForDelete_loop h mousePx ts
      | Some list \<Rightarrow>
          (case first_hit h mousePx list of
             Some i \<Rightarrow> Some (name, i)
           | None \<Rightarrow> pickForDelete_loop h mousePx ts))"

definition pickForDelete ::
  "hit_detector \<Rightarrow> latlng \<Rightarrow> (string \<times> tool) list \<Rightarrow> (string \<times> nat) option" where
  "pickForDelete h latlng ts =
     pickForDelete_loop h (latLngToScreen h (lat latlng) (lng latlng)) ts"

text \<open>
  \<open>pickAll(latlng, tools)\<close>: every hit, as \<open>{ item, tool }\<close> with the tool named by its
  key and the item given with its index.
\<close>

definition hits_of ::
  "(entity \<Rightarrow> bool) \<Rightarrow> string \<times> tool \<Rightarrow> (string \<times> nat \<times> entity) list" where
  "hits_of test nt =
     map (\<lambda>(i, item). (fst nt, i, item))
       (filter (\<lambda>(i, item). test item) (enumerate 0 (extractItems (snd nt))))"

definition pickAll ::
  "hit_detector \<Rightarrow> latlng \<Rightarrow> (string \<times> tool) list \<Rightarrow> (string \<times> nat \<times> entity) list" where
  "pickAll h latlng ts =
     (let mousePx = latLngToScreen h (lat latlng) (lng latlng)
      in concat (map (hits_of (\<lambda>item. hitTest h item mousePx)) ts))"

record bounds =
  minLat :: real
  maxLat :: real
  minLng :: real
  maxLng :: real

definition pointInBounds :: "real \<Rightarrow> real \<Rightarrow> bounds \<Rightarrow> bool" where
  "pointInBounds plat plng b =
     (plat \<ge> minLat b \<and> plat \<le> maxLat b \<and> plng \<ge> minLng b \<and> plng \<le> maxLng b)"

fun isInBounds :: "entity \<Rightarrow> bounds \<Rightarrow> bool" where
  "isInBounds (EPoint p) b = pointInBounds (pt_lat p) (pt_lng p) b"
| "isInBounds (EText t) b = pointInBounds (tx_lat t) (tx_lng t) b"
| "isInBounds (ESector s) b = pointInBounds (lat (sc_center s)) (lng (sc_center s)) b"
| "isInBounds (ELine l) b = list_ex (\<lambda>p. pointInBounds (lat p) (lng p) b) (ln_points l)"
| "isInBounds (EPolygon g) b = list_ex (\<lambda>p. pointInBounds (lat p) (lng p) b) (pg_points g)"

definition pickInBounds ::
  "bounds \<Rightarrow> (string \<times> tool) list \<Rightarrow> (string \<times> nat \<times> entity) list" where
  "pickInBounds b ts = concat (map (hits_of (\<lambda>item. isInBounds item b)) ts)"


section \<open>Floating-point addition\<close>





section \<open>tools/MoveTool.js\<close>








text \<open>\<open>this.toolManager.getAllTools().filter(t => !t.isMoveTool)\<close>.\<close>

definition candidate_tools :: "tool_manager \<Rightarrow> (string \<times> tool) list" where
  "candidate_tools tm = filter (\<lambda>(name, t). \<not> isMoveTool t) (getAllTools tm)"






section \<open>tools/DeleteTool.js\<close>

text \<open>\<open>list.splice(index, 1)\<close> for an index that is not negative.\<close>

definition splice1 :: "nat \<Rightarrow> 'a list \<Rightarrow> 'a list" where
  "splice1 i xs = take i xs @ drop (i + 1) xs"

text \<open>The splice on the array that \<open>extractList\<close> gave for the tool.\<close>

fun splice_tool :: "nat \<Rightarrow> tool \<Rightarrow> tool" where
  "splice_tool i (PointsTool t) = PointsTool (t\<lparr>points := splice1 i (points t)\<rparr>)"
| "splice_tool i (TextTool t) = TextTool (t\<lparr>texts := splice1 i (texts t)\<rparr>)"
| "splice_tool i (PolylineTool t) = PolylineTool (t\<lparr>lines := splice1 i (lines t)\<rparr>)"
| "splice_tool i (PolygonTool t) = PolygonTool (t\<lparr>polygons := splice1 i (polygons t)\<rparr>)"
| "splice_tool i (SectorTool t) = SectorTool (t\<lparr>sectors := splice1 i (sectors t)\<rparr>)"
| "splice_tool i MoveTool = MoveTool"
| "splice_tool i DeleteTool = DeleteTool"

definition DeleteTool_add :: "hit_detector \<Rightarrow> latlng \<Rightarrow> tool_manager \<Rightarrow> tool_manager" where
  "DeleteTool_add h latlng tm =
     (case pickForDelete h latlng (candidate_tools tm) of
        None \<Rightarrow> tm
      | Some (name, index) \<Rightarrow> update_tool name (splice_tool index) tm)"


section \<open>The interchange document\<close>

text \<open>
  A feature after \<open>JSON.stringify\<close> and \<open>JSON.parse\<close>: its geometry, and its
  properties, each of which may be absent (\<open>None\<close>; a property whose value is
  \<open>undefined\<close> is left out by \<open>JSON.stringify\<close>). \<open>elevation\<close> may be absent,
  \<open>null\<close> (\<open>Some None\<close>) or a number.
\<close>

datatype geometry =
    GPoint position
  | GLineString "position list"
  | GPolygon "position list list"

record properties =
  prop_type :: "string option"
  prop_elevation :: "real option option"
  prop_color :: "string option"
  prop_symbol :: "string option"
  prop_style :: "string option"
  prop_distance :: "real option"
  prop_alpha :: "real option"
  prop_area :: "real option"
  prop_text :: "string option"
  prop_size :: "real option"
  prop_center :: "latlng option"
  prop_radius :: "real option"
  prop_bearing :: "real option"
  prop_angle :: "real option"

definition no_properties :: properties where
  "no_properties =
     \<lparr>prop_type = None, prop_elevation = None, prop_color = None, prop_symbol = None,
      prop_style = None, prop_distance = None, prop_alpha = None, prop_area = None,
      prop_text = None, prop_size = None, prop_center = None, prop_radius = None,
      prop_bearing = None, prop_angle = None\<rparr>"

record feature =
  geometry :: geometry
  properties :: properties

record document =
  doc_type :: string
  features :: "feature list"

text \<open>\<open>a ?? b\<close> and \<open>a || b\<close> on a property that may be absent.\<close>

definition nullish_default :: "'a option \<Rightarrow> 'a \<Rightarrow> 'a" where
  "nullish_default a b = (case a of None \<Rightarrow> b | Some v \<Rightarrow> v)"

definition or_string :: "string option \<Rightarrow> string \<Rightarrow> string" where
  "or_string a b = (case a of None \<Rightarrow> b | Some v \<Rightarrow> if v = [] then b else v)"

definition or_number :: "real option \<Rightarrow> real \<Rightarrow> real" where
  "or_number a b = (case a of None \<Rightarrow> b | Some v \<Rightarrow> if v = 0 then b else v)"

subsection \<open>accepts\<close>

definition PointsTool_accepts :: "feature \<Rightarrow> bool" where
  "PointsTool_accepts f =
     (case geometry f of
        GPoint c \<Rightarrow> prop_type (properties f) = None \<or> prop_type (properties f) = Some []
      | _ \<Rightarrow> False)"

definition PolylineTool_accepts :: "feature \<Rightarrow> bool" where
  "PolylineTool_accepts f = (case geometry f of GLineString cs \<Rightarrow> True | _ \<Rightarrow> False)"

definition PolygonTool_accepts :: "feature \<Rightarrow> bool" where
  "PolygonTool_accepts f =
     (case geometry f of
        GPolygon rings \<Rightarrow> prop_type (properties f) \<noteq> Some ''sector''
      | _ \<Rightarrow> False)"

definition SectorTool_accepts :: "feature \<Rightarrow> bool" where
  "SectorTool_accepts f =
     (case geometry f of
        GPolygon rings \<Rightarrow> prop_type (properties f) = Some ''sector''
      | _ \<Rightarrow> False)"

definition TextTool_accepts :: "feature \<Rightarrow> bool" where
  "TextTool_accepts f =
     (case geometry f of
        GPoint c \<Rightarrow> prop_type (properties f) = Some ''text''
      | _ \<Rightarrow> False)"

text \<open>\<open>tool?.constructor.accepts?.(feature)\<close>; MoveTool and DeleteTool have no \<open>accepts\<close>.\<close>

fun accepts :: "tool \<Rightarrow> feature \<Rightarrow> bool" where
  "accepts (PointsTool t) f = PointsTool_accepts f"
| "accepts (PolylineTool t) f = PolylineTool_accepts f"
| "accepts (PolygonTool t) f = PolygonTool_accepts f"
| "accepts (SectorTool t) f = SectorTool_accepts f"
| "accepts (TextTool t) f = TextTool_accepts f"
| "accepts MoveTool f = False"
| "accepts DeleteTool f = False"

subsection \<open>toGeoJSON\<close>

definition PointsTool_toGeoJSON :: "points_tool \<Rightarrow> feature list" where
  "PointsTool_toGeoJSON t =
     map (\<lambda>p. \<lparr>geometry = GPoint (pt_lng p, pt_lat p),
                properties = no_properties\<lparr>prop_elevation := Some (pt_elev p),
                                            prop_color := Some (pt_color p),
                                            prop_symbol := Some (pt_symbol p)\<rparr>\<rparr>) (points t)"

definition PolylineTool_toGeoJSON :: "polyline_tool \<Rightarrow> feature list" where
  "PolylineTool_toGeoJSON t =
     map (\<lambda>l. \<lparr>geometry = GLineString (map (\<lambda>p. (lng p, lat p)) (ln_points l)),
                properties = no_properties\<lparr>prop_color := Some (ln_color l),
                                            prop_style := Some (ln_style l),
                                            prop_distance := Some (polylineLength (ln_points l))\<rparr>\<rparr>)
       (lines t)"

text \<open>
  For a polygon the ring is closed with \<open>[p.points[0].lng, p.points[0].lat]\<close>, which
  throws when \<open>p.points\<close> is empty.
\<close>

definition polygon_feature :: "polygon \<Rightarrow> error + feature" where
  "polygon_feature p =
     (case pg_points p of
        [] \<Rightarrow> Inl TypeError
      | p0 # ps \<Rightarrow>
          Inr \<lparr>geometry = GPolygon [map (\<lambda>pt. (lng pt, lat pt)) (pg_points p) @ [(lng p0, lat p0)]],
               properties = no_properties\<lparr>prop_color := Some (pg_color p),
                                           prop_alpha := Some (pg_alpha p),
                                           prop_area := Some (polygonArea (pg_points p))\<rparr>\<rparr>)"

text \<open>A \<open>map\<close> whose callback may throw: the first exception ends it.\<close>

fun map_throwing :: "('a \<Rightarrow> error + 'b) \<Rightarrow> 'a list \<Rightarrow> error + 'b list" where
  "map_throwing f [] = Inr []"
| "map_throwing f (x # xs) =
     (case f x of
        Inl e \<Rightarrow> Inl e
      | Inr y \<Rightarrow> (case map_throwing f xs of Inl e \<Rightarrow> Inl e | Inr ys \<Rightarrow> Inr (y # ys)))"

definition PolygonTool_toGeoJSON :: "polygon_tool \<Rightarrow> error + feature list" where
  "PolygonTool_toGeoJSON t = map_throwing polygon_feature (polygons t)"

definition SectorTool_toGeoJSON :: "sector_tool \<Rightarrow> feature list" where
  "SectorTool_toGeoJSON t =
     map (\<lambda>s. \<lparr>geometry = GPolygon [sectorCoordinates s],
                properties = no_properties\<lparr>prop_type := Some ''sector'',
                                            prop_center := Some (sc_center s),
                                            prop_radius := Some (sc_radius s),
                                            prop_bearing := Some (sc_bearing s),
                                            prop_angle := Some (sc_angle s),
                                            prop_elevation := Some (sc_elev s),
                                            prop_color := Some (sc_color s),
                                            prop_area := Some (pi * sc_radius s * sc_radius s
                                                               * (sc_angle s / 360))\<rparr>\<rparr>)
       (sectors t)"

definition TextTool_toGeoJSON :: "text_tool \<Rightarrow> feature list" where
  "TextTool_toGeoJSON t =
     map (\<lambda>x. \<lparr>geometry = GPoint (tx_lng x, tx_lat x),
                properties = no_properties\<lparr>prop_type := Some ''text'',
                                            prop_text := tx_text x,
                                            prop_color := Some (tx_color x),
                                            prop_size := Some (tx_size x)\<rparr>\<rparr>) (texts t)"

text \<open>\<open>tool.toGeoJSON()\<close> where the tool has the method (\<open>None\<close> where it has not).\<close>

fun toGeoJSON :: "tool \<Rightarrow> (error + feature list) option" where
  "toGeoJSON (PointsTool t) = Some (Inr (PointsTool_toGeoJSON t))"
| "toGeoJSON (PolylineTool t) = Some (Inr (PolylineTool_toGeoJSON t))"
| "toGeoJSON (PolygonTool t) = Some (PolygonTool_toGeoJSON t)"
| "toGeoJSON (SectorTool t) = Some (Inr (SectorTool_toGeoJSON t))"
| "toGeoJSON (TextTool t) = Some (Inr (TextTool_toGeoJSON t))"
| "toGeoJSON MoveTool = None"
| "toGeoJSON DeleteTool = None"

subsection \<open>fromGeoJSON\<close>

definition PointsTool_fromGeoJSON :: "feature \<Rightarrow> points_tool \<Rightarrow> points_tool" where
  "PointsTool_fromGeoJSON f t =
     (if \<not> PointsTool_accepts f then t
      else (case geometry f of
              GPoint c \<Rightarrow>
                t\<lparr>points := points t @
                   [\<lparr>pt_lat = snd c, pt_lng = fst c,
                     pt_elev = nullish_default (prop_elevation (properties f)) None,
                     pt_color = nullish_default (prop_color (properties f)) ''black'',
                     pt_symbol = nullish_default (prop_symbol (properties f)) ''circle''\<rparr>]\<rparr>
            | _ \<Rightarrow> t))"

definition PolylineTool_fromGeoJSON :: "feature \<Rightarrow> polyline_tool \<Rightarrow> polyline_tool" where
  "PolylineTool_fromGeoJSON f t =
     (if \<not> PolylineTool_accepts f then t
      else (case geometry f of
              GLineString cs \<Rightarrow>
                t\<lparr>lines := lines t @
                   [\<lparr>ln_points = map (\<lambda>c. \<lparr>lat = snd c, lng = fst c, elev = None\<rparr>) cs,
                     ln_color = or_string (prop_color (properties f)) ''black'',
                     ln_style = or_string (prop_style (properties f)) ''solid''\<rparr>]\<rparr>
            | _ \<Rightarrow> t))"

text \<open>
  \<open>ring = f.geometry.coordinates[0]\<close> is \<open>undefined\<close> when there is no ring, and
  \<open>ring.slice(0, -1)\<close> then throws; \<open>slice(0, -1)\<close> drops the last position.
\<close>

definition PolygonTool_fromGeoJSON :: "feature \<Rightarrow> polygon_tool \<Rightarrow> error + polygon_tool" where
  "PolygonTool_fromGeoJSON f t =
     (if \<not> PolygonTool_accepts f then Inr t
      else (case geometry f of
              GPolygon [] \<Rightarrow> Inl TypeError
            | GPolygon (ring # rings) \<Rightarrow>
                Inr (t\<lparr>polygons := polygons t @
                        [\<lparr>pg_points = map (\<lambda>c. \<lparr>lat = snd c, lng = fst c\<rparr>) (butlast ring),
                          pg_color = nullish_default (prop_color (properties f)) ''green'',
                          pg_alpha = nullish_default (prop_alpha (properties f)) (25 / 100)\<rparr>]\<rparr>)
            | _ \<Rightarrow> Inr t))"

text \<open>
  A sector takes \<open>center\<close>, \<open>radius\<close>, \<open>bearing\<close> and \<open>angle\<close> from the properties as
  they are; where one is absent the entity would hold \<open>undefined\<close>. An absent
  \<open>elevation\<close> gives \<open>undefined\<close>, which is \<open>None\<close> like \<open>null\<close>.
\<close>

definition SectorTool_fromGeoJSON :: "feature \<Rightarrow> sector_tool \<Rightarrow> error + sector_tool" where
  "SectorTool_fromGeoJSON f t =
     (if \<not> SectorTool_accepts f then Inr t
      else (case (prop_center (properties f), prop_radius (properties f),
                  prop_bearing (properties f), prop_angle (properties f)) of
              (Some c, Some r, Some b, Some a) \<Rightarrow>
                Inr (t\<lparr>sectors := sectors t @
                        [\<lparr>sc_center = c, sc_radius = r, sc_bearing = b,
                          sc_elev = nullish_default (prop_elevation (properties f)) None,
                          sc_color = or_string (prop_color (properties f)) ''black'',
                          sc_angle = a\<rparr>]\<rparr>)
            | _ \<Rightarrow> Inl OutsideModel))"

definition TextTool_fromGeoJSON :: "feature \<Rightarrow> text_tool \<Rightarrow> text_tool" where
  "TextTool_fromGeoJSON f t =
     (if \<not> TextTool_accepts f then t
      else (case geometry f of
              GPoint c \<Rightarrow>
                t\<lparr>texts := texts t @
                   [\<lparr>tx_lat = snd c, tx_lng = fst c, tx_value = None,
                     tx_text = prop_text (properties f),
                     tx_color = or_string (prop_color (properties f)) ''black'',
                     tx_size = or_number (prop_size (properties f)) 14\<rparr>]\<rparr>
            | _ \<Rightarrow> t))"

fun fromGeoJSON :: "feature \<Rightarrow> tool \<Rightarrow> error + tool" where
  "fromGeoJSON f (PointsTool t) = Inr (PointsTool (PointsTool_fromGeoJSON f t))"
| "fromGeoJSON f (PolylineTool t) = Inr (PolylineTool (PolylineTool_fromGeoJSON f t))"
| "fromGeoJSON f (PolygonTool t) = map_sum id PolygonTool (PolygonTool_fromGeoJSON f t)"
| "fromGeoJSON f (SectorTool t) = map_sum id SectorTool (SectorTool_fromGeoJSON f t)"
| "fromGeoJSON f (TextTool t) = Inr (TextTool (TextTool_fromGeoJSON f t))"
| "fromGeoJSON f MoveTool = Inl TypeError"
| "fromGeoJSON f DeleteTool = Inl TypeError"

section \<open>io/IOManager.js\<close>

text \<open>
  The loop of \<open>export\<close> over \<open>getDrawingTools()\<close>: the features of each tool that has
  \<open>toGeoJSON\<close> are appended.
\<close>

fun collect_features :: "(string \<times> tool) list \<Rightarrow> error + feature list" where
  "collect_features [] = Inr []"
| "collect_features ((name, tool) # ts) =
     (case toGeoJSON tool of
        None \<Rightarrow> collect_features ts
      | Some (Inl e) \<Rightarrow> Inl e
      | Some (Inr fs) \<Rightarrow>
          (case collect_features ts of Inl e \<Rightarrow> Inl e | Inr gs \<Rightarrow> Inr (fs @ gs)))"

text \<open>
  \<open>export()\<close>: the document, or \<open>null\<close> when an exception was caught. The document's
  own \<open>properties\<close> (date and version) are left out.
\<close>

definition IOManager_export :: "tool_manager \<Rightarrow> document option" where
  "IOManager_export tm =
     (case collect_features (getDrawingTools tm) of
        Inl e \<Rightarrow> None
      | Inr fs \<Rightarrow> Some \<lparr>doc_type = ''FeatureCollection'', features = fs\<rparr>)"

text \<open>
  The loop of \<open>importGeoJSON\<close>: each feature goes to the first tool of \<open>getAllTools()\<close>
  whose class accepts it, and is counted; a feature that no tool accepts is skipped. The
  code takes the array of tool objects once, before the loop, and mutates the objects;
  here the tools are read from the registry at each feature, which gives the same tool
  for the same key.
\<close>

fun importGeoJSON_loop ::
  "feature list \<Rightarrow> tool_manager \<Rightarrow> nat \<Rightarrow> error + (tool_manager \<times> nat)" where
  "importGeoJSON_loop [] tm count = Inr (tm, count)"
| "importGeoJSON_loop (f # fs) tm count =
     (case find (\<lambda>(name, tool). accepts tool f) (getAllTools tm) of
        None \<Rightarrow> importGeoJSON_loop fs tm count
      | Some (name, tool) \<Rightarrow>
          (case fromGeoJSON f tool of
             Inl e \<Rightarrow> Inl e
           | Inr tool' \<Rightarrow> importGeoJSON_loop fs (update_tool name (\<lambda>t. tool') tm) (count + 1)))"

definition importGeoJSON :: "document \<Rightarrow> tool_manager \<Rightarrow> error + (tool_manager \<times> nat)" where
  "importGeoJSON geojson tm =
     (if doc_type geojson \<noteq> ''FeatureCollection'' then Inr (tm, 0)
      else importGeoJSON_loop (features geojson) tm 0)"

section \<open>Notions used in the statements\<close>

text \<open>The midpoint of a segment on screen.\<close>

definition segment_midpoint :: "screen_point \<Rightarrow> screen_point \<Rightarrow> screen_point" where
  "segment_midpoint a b = \<lparr>sx = (sx a + sx b) / 2, sy = (sy a + sy b) / 2\<rparr>"

text \<open>\<open>this.map.latLngToScreen(p)\<close> for an object \<open>p\<close> with \<open>lat\<close> and \<open>lng\<close>.\<close>

definition to_screen :: "hit_detector \<Rightarrow> 'a latlng_scheme \<Rightarrow> screen_point" where
  "to_screen h p = latLngToScreen h (lat p) (lng p)"

text \<open>
  The distances from the pointer to the segments between consecutive vertices, and the
  least of them: the screen distance from the pointer to the line.
\<close>

definition segment_distances ::
  "hit_detector \<Rightarrow> 'a latlng_scheme list \<Rightarrow> screen_point \<Rightarrow> real list" where
  "segment_distances h pts mousePx =
     map (\<lambda>i. distToSegment mousePx (to_screen h (pts ! i)) (to_screen h (pts ! Suc i)))
       [0..<length pts - 1]"

definition min_segment_distance ::
  "hit_detector \<Rightarrow> 'a latlng_scheme list \<Rightarrow> screen_point \<Rightarrow> real" where
  "min_segment_distance h pts mousePx = Min (set (segment_distances h pts mousePx))"

text \<open>
  A detector for the examples: the map shows \<open>(lat, lng)\<close> at \<open>x = lng\<close>, \<open>y = lat\<close>,
  and the tolerance is the default of 8 pixels.
\<close>

definition flat_map :: hit_detector where
  "flat_map = \<lparr>latLngToScreen = (\<lambda>plat plng. \<lparr>sx = plng, sy = plat\<rparr>), tolerance = 8\<rparr>"

text \<open>The committed collection of the tool registered under a key (empty if there is none).\<close>

definition collection :: "tool_manager \<Rightarrow> string \<Rightarrow> entity list" where
  "collection tm name =
     (case map_of (tools tm) name of Some (Some t) \<Rightarrow> extractItems t | _ \<Rightarrow> [])"

text \<open>Entities, tools and a registry for the examples.\<close>

definition sample_point :: point where
  "sample_point = \<lparr>pt_lat = 10, pt_lng = 10, pt_elev = None, pt_color = ''black'',
                    pt_symbol = ''circle''\<rparr>"

definition sample_tools :: "(string \<times> tool) list" where
  "sample_tools =
     [(''points'', PointsTool \<lparr>points = [sample_point]\<rparr>),
      (''text'', TextTool \<lparr>texts = [], tx_draft = Some
         \<lparr>tx_lat = 50, tx_lng = 50, tx_value = Some [], tx_text = None, tx_color = ''black'',
          tx_size = 14\<rparr>\<rparr>)]"

definition sample_registry :: tool_manager where
  "sample_registry =
     main_registry \<lparr>points = [sample_point, sample_point\<lparr>pt_lat := 200\<rparr>]\<rparr>
       \<lparr>lines = [], ln_draft = None, ln_hover = None\<rparr>
       \<lparr>polygons = [], pg_draft = None, pg_hover = None\<rparr>
       \<lparr>sectors = [], sc_draft = None\<rparr>
       \<lparr>texts = [], tx_draft = None\<rparr>"











text \<open>
  Export of a registry followed by import of the document into the freshly constructed
  tools of \<open>main.js\<close>: the registry after the import (\<open>None\<close> if the export or the
  import throws).
\<close>

definition roundtrip :: "tool_manager \<Rightarrow> tool_manager option" where
  "roundtrip tm =
     (case IOManager_export tm of
        None \<Rightarrow> None
      | Some geojson \<Rightarrow>
          (case importGeoJSON geojson fresh_registry of
             Inl e \<Rightarrow> None
           | Inr (tm', count) \<Rightarrow> Some tm'))"

text \<open>The tools of \<open>main.js\<close> holding the given collections and no draft.\<close>

definition registry_of ::
  "point list \<Rightarrow> line list \<Rightarrow> polygon list \<Rightarrow> sector list \<Rightarrow> text_item list \<Rightarrow> tool_manager" where
  "registry_of ps ls gs ss xs =
     main_registry \<lparr>points = ps\<rparr>
       \<lparr>lines = ls, ln_draft = None, ln_hover = None\<rparr>
       \<lparr>polygons = gs, pg_draft = None, pg_hover = None\<rparr>
       \<lparr>sectors = ss, sc_draft = None\<rparr>
       \<lparr>texts = xs, tx_draft = None\<rparr>"

text \<open>The elevation property of each feature of the exported document.\<close>

definition exported_elevations :: "tool_manager \<Rightarrow> real option option list option" where
  "exported_elevations tm =
     map_option (\<lambda>geojson. map (\<lambda>f. prop_elevation (properties f)) (features geojson))
       (IOManager_export tm)"

text \<open>
  What the import makes of an exported line, sector and text: vertex elevations are
  \<open>null\<close>, an empty colour or style and a zero size are replaced by the defaults, and
  a text has no property \<open>value\<close>.
\<close>

definition reimported_line :: "line \<Rightarrow> line" where
  "reimported_line l =
     \<lparr>ln_points = map (\<lambda>v. v\<lparr>elev := None\<rparr>) (ln_points l),
      ln_color = or_string (Some (ln_color l)) ''black'',
      ln_style = or_string (Some (ln_style l)) ''solid''\<rparr>"

definition reimported_sector :: "sector \<Rightarrow> sector" where
  "reimported_sector s = s\<lparr>sc_color := or_string (Some (sc_color s)) ''black''\<rparr>"

definition reimported_text :: "text_item \<Rightarrow> text_item" where
  "reimported_text t =
     t\<lparr>tx_value := None, tx_color := or_string (Some (tx_color t)) ''black'',
       tx_size := or_number (Some (tx_size t)) 14\<rparr>"

definition sample_line :: line where
  "sample_line =
     \<lparr>ln_points = [\<lparr>lat = 0, lng = 0, elev = Some 120\<rparr>, \<lparr>lat = 0, lng = 1, elev = None\<rparr>,
                   \<lparr>lat = 1, lng = 1, elev = None\<rparr>],
      ln_color = ''black'', ln_style = ''solid''\<rparr>"

definition sample_line_no_elevation :: line where
  "sample_line_no_elevation =
     \<lparr>ln_points = [\<lparr>lat = 0, lng = 0, elev = None\<rparr>, \<lparr>lat = 0, lng = 1, elev = None\<rparr>,
                   \<lparr>lat = 1, lng = 1, elev = None\<rparr>],
      ln_color = ''black'', ln_style = ''solid''\<rparr>"

definition sample_polygon :: polygon where
  "sample_polygon =
     \<lparr>pg_points = [\<lparr>lat = 0, lng = 0\<rparr>, \<lparr>lat = 0, lng = 1\<rparr>, \<lparr>lat = 1, lng = 1\<rparr>,
                   \<lparr>lat = 1, lng = 0\<rparr>],
      pg_color = ''green'', pg_alpha = 25 / 100\<rparr>"

definition sample_sector :: sector where
  "sample_sector =
     \<lparr>sc_center = \<lparr>lat = 2, lng = 2\<rparr>, sc_radius = 100, sc_bearing = 45, sc_elev = None,
      sc_color = ''black'', sc_angle = 60\<rparr>"

definition sample_text :: text_item where
  "sample_text =
     \<lparr>tx_lat = 3, tx_lng = 3, tx_value = None, tx_text = Some ''label'', tx_color = ''black'',
      tx_size = 14\<rparr>"

section \<open>Properties\<close>

declare decimal.simps [simp del]
declare polylineLength_loop.simps [simp del]
declare hitTestPolyline_loop.simps [simp del]
declare sectorCoordinates_loop.simps [simp del]
declare polygonArea_loop.simps [simp del]

subsection \<open>Length of a line and its display\<close>

lemma polylineLength_loop_sum:
  "i \<le> length pts - 1 \<Longrightarrow>
   polylineLength_loop pts i tot = tot + (\<Sum>k = i..<length pts - 1. distance (pts ! k) (pts ! Suc k))"
proof (induction pts i tot rule: polylineLength_loop.induct)
  case (1 pts i tot)
  show ?case
  proof (cases "i < length pts - 1")
    case True
    then have "polylineLength_loop pts i tot =
        polylineLength_loop pts (i + 1) (tot + distance (pts ! i) (pts ! Suc i))"
      by (subst polylineLength_loop.simps) simp
    also have "\<dots> = tot + distance (pts ! i) (pts ! Suc i)
        + (\<Sum>k = i + 1..<length pts - 1. distance (pts ! k) (pts ! Suc k))"
      using True "1.IH" [OF True] by simp
    also have "\<dots> = tot + (\<Sum>k = i..<length pts - 1. distance (pts ! k) (pts ! Suc k))"
      using True by (simp add: sum.atLeast_Suc_lessThan)
    finally show ?thesis .
  next
    case False
    with "1.prems" have "i = length pts - 1" by simp
    then show ?thesis by (subst polylineLength_loop.simps) simp
  qed
qed

lemma polylineLength_sum:
  "polylineLength pts = (\<Sum>k = 0..<length pts - 1. distance (pts ! k) (pts ! Suc k))"
proof (cases "length pts < 2")
  case True
  then have "length pts - 1 = 0" by simp
  with True show ?thesis by (simp add: polylineLength_def)
next
  case False
  then show ?thesis by (simp add: polylineLength_def polylineLength_loop_sum)
qed

lemma decimal_numeral:
  "decimal (numeral k) = (if (numeral k :: nat) < 10 then [digit (numeral k)]
     else decimal (numeral k div 10) @ [digit (numeral k mod 10)])"
  "decimal 0 = [digit 0]" "decimal (Suc 0) = [digit 1]"
  by (simp_all add: decimal.simps [of "numeral k"] decimal.simps [of 0] decimal.simps [of "Suc 0"])

lemma toFixed_1_2: "toFixed 1 2 = ''1.00''"
  by (simp add: toFixed_def Let_def decimal_numeral digit_def)

lemma floor_999999: "\<lfloor>\<bar>999999 / 1000 :: real\<bar> * 10 ^ 2 + 1 / 2\<rfloor> = 100000"
  by (rule floor_unique) simp_all

lemma toFixed_999999: "toFixed (999999 / 1000) 2 = ''1000.00''"
  unfolding toFixed_def Let_def floor_999999
  by (simp add: decimal_numeral digit_def)

text \<open>
  C6. The length reported for a line, \<open>polylineLength(points)\<close>, is the sum of the
  haversine distances \<open>distance(points[k], points[k + 1])\<close> over the consecutive vertex
  pairs. A length of at least 1000 m is displayed in kilometres and a smaller one in
  metres; exactly 1000 m is displayed as \<open>1.00 km\<close> and 999.999 m in metres.
\<close>

theorem length_is_sum_and_km_from_1000:
  assumes "1000 \<le> m" and "m' < 1000"
  shows "polylineLength pts = (\<Sum>k = 0..<length pts - 1. distance (pts ! k) (pts ! Suc k))
       \<and> formatDistance m d = toFixed (m / 1000) d @ '' km''
       \<and> formatDistance m' d = toFixed m' d @ '' m''
       \<and> formatDistance 1000 2 = ''1.00 km''
       \<and> formatDistance (999999 / 1000) 2 = ''1000.00 m''"
  using assms
  by (simp add: polylineLength_sum formatDistance_def toFixed_1_2 toFixed_999999)

theorem length_is_sum_and_km_from_1000_witness:
  "polylineLength [\<lparr>lat = 0, lng = 0, elev = None\<rparr>, \<lparr>lat = 0, lng = 1, elev = None\<rparr>,
                   \<lparr>lat = 1, lng = 1, elev = Some 5\<rparr>]
     = distance \<lparr>lat = 0, lng = 0, elev = None\<rparr> \<lparr>lat = 0, lng = 1, elev = None\<rparr>
       + distance \<lparr>lat = 0, lng = 1, elev = None\<rparr> \<lparr>lat = 1, lng = 1, elev = Some 5\<rparr>
   \<and> formatDistance 1500 2 = toFixed (15 / 10) 2 @ '' km''
   \<and> formatDistance 250 2 = toFixed 250 2 @ '' m''"
proof -
  let ?ps = "[\<lparr>lat = 0, lng = 0, elev = None\<rparr>, \<lparr>lat = 0, lng = 1, elev = None\<rparr>,
              \<lparr>lat = 1, lng = 1, elev = Some 5\<rparr>]"
  have hyp: "(1000::real) \<le> 1500" "(250::real) < 1000"
    by simp_all
  have two: "length ?ps - 1 = Suc (Suc 0)"
    by simp
  have "(\<Sum>k = 0..<length ?ps - 1. distance (?ps ! k) (?ps ! Suc k))
      = distance \<lparr>lat = 0, lng = 0, elev = None\<rparr> \<lparr>lat = 0, lng = 1, elev = None\<rparr>
        + distance \<lparr>lat = 0, lng = 1, elev = None\<rparr> \<lparr>lat = 1, lng = 1, elev = Some 5\<rparr>"
    unfolding two by simp
  then show ?thesis
    using length_is_sum_and_km_from_1000 [OF hyp, of ?ps 2] by simp
qed

subsection \<open>Polygon drafts\<close>

text \<open>
  C7. \<open>finish()\<close> on a polygon draft with exactly 2 vertices commits nothing and
  discards the draft; on a draft with exactly 3 vertices it appends the draft to the
  collection.
\<close>

theorem polygon_finish_2_discards_3_commits:
  assumes "pg_draft t = Some d"
  shows "(length (pg_points d) = 2 \<longrightarrow>
            polygons (PolygonTool_finish t) = polygons t \<and> pg_draft (PolygonTool_finish t) = None)
       \<and> (length (pg_points d) = 3 \<longrightarrow>
            polygons (PolygonTool_finish t) = polygons t @ [d]
            \<and> pg_draft (PolygonTool_finish t) = None)"
  using assms by (simp add: PolygonTool_finish_def)

theorem polygon_finish_2_discards_3_commits_witness:
  "polygons (PolygonTool_finish
      (PolygonTool_add StyleManager_new \<lparr>lat = 0, lng = 1\<rparr>
        (PolygonTool_add StyleManager_new \<lparr>lat = 0, lng = 0\<rparr>
          \<lparr>polygons = [], pg_draft = None, pg_hover = None\<rparr>))) = []
   \<and> polygons (PolygonTool_finish
      (PolygonTool_add StyleManager_new \<lparr>lat = 1, lng = 1\<rparr>
        (PolygonTool_add StyleManager_new \<lparr>lat = 0, lng = 1\<rparr>
          (PolygonTool_add StyleManager_new \<lparr>lat = 0, lng = 0\<rparr>
            \<lparr>polygons = [], pg_draft = None, pg_hover = None\<rparr>))))
     = [\<lparr>pg_points = [\<lparr>lat = 0, lng = 0\<rparr>, \<lparr>lat = 0, lng = 1\<rparr>, \<lparr>lat = 1, lng = 1\<rparr>],
         pg_color = ''green'', pg_alpha = 25 / 100\<rparr>]"
proof -
  let ?t0 = "\<lparr>polygons = [], pg_draft = None, pg_hover = None\<rparr>"
  let ?t2 = "PolygonTool_add StyleManager_new \<lparr>lat = 0, lng = 1\<rparr>
               (PolygonTool_add StyleManager_new \<lparr>lat = 0, lng = 0\<rparr> ?t0)"
  let ?t3 = "PolygonTool_add StyleManager_new \<lparr>lat = 1, lng = 1\<rparr> ?t2"
  let ?d2 = "\<lparr>pg_points = [\<lparr>lat = 0, lng = 0\<rparr>, \<lparr>lat = 0, lng = 1\<rparr>],
              pg_color = ''green'', pg_alpha = 25 / 100\<rparr>"
  let ?d3 = "\<lparr>pg_points = [\<lparr>lat = 0, lng = 0\<rparr>, \<lparr>lat = 0, lng = 1\<rparr>, \<lparr>lat = 1, lng = 1\<rparr>],
              pg_color = ''green'', pg_alpha = 25 / 100\<rparr>"
  have d2: "pg_draft ?t2 = Some ?d2" and p2: "polygons ?t2 = []"
    by (simp_all add: PolygonTool_add_def StyleManager_new_def)
  have d3: "pg_draft ?t3 = Some ?d3" and p3: "polygons ?t3 = []"
    by (simp_all add: PolygonTool_add_def StyleManager_new_def)
  have "polygons (PolygonTool_finish ?t2) = []"
    using polygon_finish_2_discards_3_commits [OF d2] p2 by simp
  moreover have "polygons (PolygonTool_finish ?t3) = [?d3]"
    using polygon_finish_2_discards_3_commits [OF d3] p3 by simp
  ultimately show ?thesis by simp
qed

subsection \<open>Hit-testing lines and polygons\<close>

lemma hypot_less_iff: "hypot a b < t \<longleftrightarrow> 0 < t \<and> a * a + b * b < t * t"
proof (cases "0 < t")
  case True
  then have "sqrt (t * t) = t" by simp
  then have "hypot a b < t \<longleftrightarrow> sqrt (a * a + b * b) < sqrt (t * t)"
    by (simp add: hypot_def)
  also have "\<dots> \<longleftrightarrow> a * a + b * b < t * t"
    by (rule real_sqrt_less_iff)
  finally show ?thesis using True by simp
next
  case False
  have "0 \<le> hypot a b" by (simp add: hypot_def)
  with False show ?thesis by simp
qed

lemma hypot_eq: "0 \<le> t \<Longrightarrow> a * a + b * b = t * t \<Longrightarrow> hypot a b = t"
  by (simp add: hypot_def)

lemma hitTestPolyline_loop_iff:
  "hitTestPolyline_loop h pts mousePx i \<longleftrightarrow>
     (\<exists>k. i \<le> k \<and> k < length pts - 1
          \<and> distToSegment mousePx (to_screen h (pts ! k)) (to_screen h (pts ! Suc k))
              < tolerance h)"
proof (induction h pts mousePx i rule: hitTestPolyline_loop.induct)
  case (1 h pts mousePx i)
  show ?case
  proof (cases "i < length pts - 1")
    case False
    then show ?thesis by (subst hitTestPolyline_loop.simps) auto
  next
    case True
    show ?thesis
    proof (cases "distToSegment mousePx (to_screen h (pts ! i)) (to_screen h (pts ! Suc i))
                    < tolerance h")
      case hit: True
      then have "hitTestPolyline_loop h pts mousePx i"
        using True by (subst hitTestPolyline_loop.simps) (simp add: to_screen_def)
      with hit True show ?thesis by auto
    next
      case miss: False
      then have "hitTestPolyline_loop h pts mousePx i = hitTestPolyline_loop h pts mousePx (i + 1)"
        using True by (subst hitTestPolyline_loop.simps) (simp add: to_screen_def)
      also have "\<dots> \<longleftrightarrow> (\<exists>k. i + 1 \<le> k \<and> k < length pts - 1
          \<and> distToSegment mousePx (to_screen h (pts ! k)) (to_screen h (pts ! Suc k))
              < tolerance h)"
        using "1.IH" [OF True refl refl] miss by (simp add: to_screen_def)
      also have "\<dots> \<longleftrightarrow> (\<exists>k. i \<le> k \<and> k < length pts - 1
          \<and> distToSegment mousePx (to_screen h (pts ! k)) (to_screen h (pts ! Suc k))
              < tolerance h)"
        using miss by (metis Suc_eq_plus1 Suc_leI le_neq_implies_less Suc_leD)
      finally show ?thesis .
    qed
  qed
qed

lemma hitTestPolyline_iff:
  "hitTestPolyline h pts mousePx \<longleftrightarrow>
     (\<exists>k. Suc k < length pts
          \<and> distToSegment mousePx (to_screen h (pts ! k)) (to_screen h (pts ! Suc k))
              < tolerance h)"
proof (cases "length pts < 2")
  case True
  then show ?thesis by (auto simp: hitTestPolyline_def)
next
  case False
  then have "\<And>k. k < length pts - 1 \<longleftrightarrow> Suc k < length pts" by auto
  with False show ?thesis by (simp add: hitTestPolyline_def hitTestPolyline_loop_iff)
qed

lemma hitTestPolyline_min:
  assumes "2 \<le> length pts"
  shows "hitTestPolyline h pts mousePx \<longleftrightarrow> min_segment_distance h pts mousePx < tolerance h"
proof -
  have ne: "set (segment_distances h pts mousePx) \<noteq> {}"
    using assms by (simp add: segment_distances_def)
  have "min_segment_distance h pts mousePx < tolerance h \<longleftrightarrow>
        (\<exists>d \<in> set (segment_distances h pts mousePx). d < tolerance h)"
    unfolding min_segment_distance_def using ne by (simp add: Min_less_iff)
  also have "\<dots> \<longleftrightarrow> (\<exists>k. k < length pts - 1
          \<and> distToSegment mousePx (to_screen h (pts ! k)) (to_screen h (pts ! Suc k))
              < tolerance h)"
    by (auto simp: segment_distances_def)
  also have "\<dots> \<longleftrightarrow> hitTestPolyline h pts mousePx"
    unfolding hitTestPolyline_iff by (metis Suc_lessD less_diff_conv Suc_eq_plus1)
  finally show ?thesis by simp
qed

lemma distToSegment_midpoint: "distToSegment (segment_midpoint a b) a b = 0"
proof (cases "sx b - sx a = 0 \<and> sy b - sy a = 0")
  case True
  then show ?thesis
    by (simp add: distToSegment_def segment_midpoint_def hypot_def)
next
  case False
  define dx where "dx = sx b - sx a"
  define dy where "dy = sy b - sy a"
  define m where "m = segment_midpoint a b"
  have nz: "dx * dx + dy * dy \<noteq> 0" and nz': "\<not> (dx = 0 \<and> dy = 0)"
    using False by (simp_all add: dx_def dy_def)
  have mx: "sx m - sx a = dx / 2" and my: "sy m - sy a = dy / 2"
    by (simp_all add: m_def segment_midpoint_def dx_def dy_def field_simps)
  have "(dx / 2 * dx + dy / 2 * dy) = (dx * dx + dy * dy) / 2"
    by (simp add: field_simps)
  then have t: "((sx m - sx a) * dx + (sy m - sy a) * dy) / (dx * dx + dy * dy) = 1 / 2"
    using nz unfolding mx my by simp
  have cl: "max 0 (min 1 (1 / 2 :: real)) = 1 / 2"
    by simp
  have x0: "sx m - (sx a + 1 / 2 * dx) = 0" and y0: "sy m - (sy a + 1 / 2 * dy) = 0"
    by (simp_all add: m_def segment_midpoint_def dx_def dy_def field_simps)
  have "distToSegment m a b = hypot (sx m - (sx a + 1 / 2 * dx)) (sy m - (sy a + 1 / 2 * dy))"
    unfolding distToSegment_def Let_def dx_def [symmetric] dy_def [symmetric] t cl
    using nz' by (simp only: if_False)
  also have "\<dots> = 0"
    unfolding x0 y0 by (simp add: hypot_def)
  finally show ?thesis by (simp add: m_def)
qed

text \<open>
  C9. For a line with at least 2 vertices: a pointer on the midpoint of a segment (on
  screen) is a hit for any tolerance above 0, and a pointer whose screen distance to the
  line (the least distance to a segment) is exactly the tolerance is not a hit.
\<close>

theorem line_hit_on_midpoint_not_at_tolerance:
  assumes "2 \<le> length (ln_points l)"
  shows "(\<forall>i. Suc i < length (ln_points l) \<and> 0 < tolerance h
              \<and> mousePx = segment_midpoint (to_screen h (ln_points l ! i))
                                             (to_screen h (ln_points l ! Suc i))
            \<longrightarrow> hitTest h (ELine l) mousePx)
       \<and> (min_segment_distance h (ln_points l) mousePx = tolerance h
            \<longrightarrow> \<not> hitTest h (ELine l) mousePx)"
proof (intro conjI allI impI)
  fix i
  assume a: "Suc i < length (ln_points l) \<and> 0 < tolerance h
              \<and> mousePx = segment_midpoint (to_screen h (ln_points l ! i))
                                             (to_screen h (ln_points l ! Suc i))"
  then have "distToSegment mousePx (to_screen h (ln_points l ! i))
               (to_screen h (ln_points l ! Suc i)) < tolerance h"
    by (simp add: distToSegment_midpoint)
  with a show "hitTest h (ELine l) mousePx"
    unfolding hitTest.simps hitTestPolyline_iff by blast
next
  assume "min_segment_distance h (ln_points l) mousePx = tolerance h"
  then show "\<not> hitTest h (ELine l) mousePx"
    using hitTestPolyline_min [OF assms, of h mousePx] by simp
qed

lemma distToSegment_50_8: "distToSegment \<lparr>sx = 50, sy = 8\<rparr> \<lparr>sx = 0, sy = 0\<rparr> \<lparr>sx = 100, sy = 0\<rparr> = 8"
  by (simp add: distToSegment_def Let_def hypot_eq)

theorem line_hit_on_midpoint_not_at_tolerance_witness:
  "hitTest flat_map
     (ELine \<lparr>ln_points = [\<lparr>lat = 0, lng = 0, elev = None\<rparr>, \<lparr>lat = 0, lng = 100, elev = None\<rparr>],
             ln_color = ''black'', ln_style = ''solid''\<rparr>) \<lparr>sx = 50, sy = 0\<rparr>
   \<and> \<not> hitTest flat_map
     (ELine \<lparr>ln_points = [\<lparr>lat = 0, lng = 0, elev = None\<rparr>, \<lparr>lat = 0, lng = 100, elev = None\<rparr>],
             ln_color = ''black'', ln_style = ''solid''\<rparr>) \<lparr>sx = 50, sy = 8\<rparr>"
proof -
  let ?l = "\<lparr>ln_points = [\<lparr>lat = 0, lng = 0, elev = None\<rparr>, \<lparr>lat = 0, lng = 100, elev = None\<rparr>],
             ln_color = ''black'', ln_style = ''solid''\<rparr>"
  have len: "2 \<le> length (ln_points ?l)"
    by simp
  have mid: "Suc 0 < length (ln_points ?l) \<and> 0 < tolerance flat_map
      \<and> \<lparr>sx = 50, sy = 0\<rparr> = segment_midpoint (to_screen flat_map (ln_points ?l ! 0))
                                             (to_screen flat_map (ln_points ?l ! Suc 0))"
    by (simp add: flat_map_def segment_midpoint_def to_screen_def)
  have "segment_distances flat_map (ln_points ?l) \<lparr>sx = 50, sy = 8\<rparr> = [8]"
    by (simp add: segment_distances_def to_screen_def flat_map_def distToSegment_50_8)
  then have at_tol: "min_segment_distance flat_map (ln_points ?l) \<lparr>sx = 50, sy = 8\<rparr>
      = tolerance flat_map"
    by (simp add: min_segment_distance_def flat_map_def)
  from line_hit_on_midpoint_not_at_tolerance [OF len, of flat_map "\<lparr>sx = 50, sy = 0\<rparr>"] mid
  have "hitTest flat_map (ELine ?l) \<lparr>sx = 50, sy = 0\<rparr>"
    by blast
  moreover from line_hit_on_midpoint_not_at_tolerance [OF len, of flat_map "\<lparr>sx = 50, sy = 8\<rparr>"] at_tol
  have "\<not> hitTest flat_map (ELine ?l) \<lparr>sx = 50, sy = 8\<rparr>"
    by blast
  ultimately show ?thesis by simp
qed

text \<open>
  C1. A triangle whose vertices are shown at (0,0), (100,0) and (100,100), tolerance 8,
  pointer at (50,50): the pointer lies on the closing segment from the last vertex back
  to the first (distance 0), and the polygon is not hit, because only the segments
  between consecutive vertices are tested.
\<close>

theorem polygon_closing_segment_is_not_tested:
  "distToSegment \<lparr>sx = 50, sy = 50\<rparr>
      (to_screen flat_map \<lparr>lat = 100, lng = 100\<rparr>) (to_screen flat_map \<lparr>lat = 0, lng = 0\<rparr>)
     < tolerance flat_map
   \<and> \<not> hitTest flat_map
         (EPolygon \<lparr>pg_points = [\<lparr>lat = 0, lng = 0\<rparr>, \<lparr>lat = 0, lng = 100\<rparr>,
                                  \<lparr>lat = 100, lng = 100\<rparr>],
                     pg_color = ''green'', pg_alpha = 25 / 100\<rparr>)
         \<lparr>sx = 50, sy = 50\<rparr>"
proof
  show "distToSegment \<lparr>sx = 50, sy = 50\<rparr>
      (to_screen flat_map \<lparr>lat = 100, lng = 100\<rparr>) (to_screen flat_map \<lparr>lat = 0, lng = 0\<rparr>)
     < tolerance flat_map"
    by (simp add: distToSegment_def Let_def to_screen_def flat_map_def hypot_less_iff)
next
  let ?pts = "[\<lparr>lat = 0, lng = 0\<rparr>, \<lparr>lat = 0, lng = 100\<rparr>, \<lparr>lat = 100, lng = 100\<rparr>]"
  have "\<not> distToSegment \<lparr>sx = 50, sy = 50\<rparr> (to_screen flat_map (?pts ! k))
            (to_screen flat_map (?pts ! Suc k)) < tolerance flat_map"
    if "Suc k < length ?pts" for k
  proof -
    from that have "k = 0 \<or> k = Suc 0" by auto
    then show ?thesis
      by (auto simp: distToSegment_def Let_def to_screen_def flat_map_def hypot_less_iff)
  qed
  then have "\<not> hitTestPolyline flat_map ?pts \<lparr>sx = 50, sy = 50\<rparr>"
    unfolding hitTestPolyline_iff by blast
  then show "\<not> hitTest flat_map
         (EPolygon \<lparr>pg_points = ?pts, pg_color = ''green'', pg_alpha = 25 / 100\<rparr>)
         \<lparr>sx = 50, sy = 50\<rparr>"
    by simp
qed

subsection \<open>Clearing\<close>

lemma clearAllData_tool_items: "extractItems (clearAllData_tool t) = []"
  by (cases t) simp_all

lemma clearAllData_tool_isDrawing: "isDrawing (clearAllData_tool t) = isDrawing t"
  by (cases t) simp_all

lemma BaseTool_clear_not_drawing: "\<not> isDrawing (BaseTool_clear t)"
  by (cases t) simp_all

lemma main_registry_tools:
  "tools (main_registry pts lns pgs scs txs) =
     [(''explore'', None), (''points'', Some (PointsTool pts)), (''line'', Some (PolylineTool lns)),
      (''polygon'', Some (PolygonTool pgs)), (''sector'', Some (SectorTool scs)),
      (''text'', Some (TextTool txs)), (''move'', Some MoveTool), (''delete'', Some DeleteTool)]"
  by (simp add: main_registry_def register_def ToolManager_new_def)

text \<open>
  C2. \<open>clearAllData\<close> on the registry of \<open>main.js\<close>: every collection is emptied, and
  every tool keeps the draft (and the hover position) it had.
\<close>

theorem clearAllData_empties_collections_keeps_drafts:
  "getDrawingTools (clearAllData (main_registry pts lns pgs scs txs)) =
     [(''points'', PointsTool (pts\<lparr>points := []\<rparr>)),
      (''line'', PolylineTool (lns\<lparr>lines := []\<rparr>)),
      (''polygon'', PolygonTool (pgs\<lparr>polygons := []\<rparr>)),
      (''sector'', SectorTool (scs\<lparr>sectors := []\<rparr>)),
      (''text'', TextTool (txs\<lparr>texts := []\<rparr>))]"
  by (simp add: getDrawingTools_def getAllTools_def clearAllData_def main_registry_tools
      excludeNames_def)

subsection \<open>Text drafts\<close>

lemma TextTool_finish_blank:
  "tx_draft t = Some d \<Longrightarrow> tx_text d = Some s \<Longrightarrow> trim s = [] \<Longrightarrow>
   TextTool_finish t = Inr (t\<lparr>tx_draft := None\<rparr>)"
  by (simp add: TextTool_finish_def)

lemma trim_spaces: "trim ''   '' = []"
  by (simp add: trim_def is_white_space_def)

lemma TextTool_finish_spaces:
  "TextTool_finish \<lparr>texts = xs, tx_draft = Some (d\<lparr>tx_text := Some ''   ''\<rparr>)\<rparr>
     = Inr \<lparr>texts = xs, tx_draft = None\<rparr>"
  by (simp add: TextTool_finish_def trim_spaces)

lemma text_finish_after_typing_throws:
  "TextTool_finish (TextTool_add (updateProperty_text_value ''label'' StyleManager_new) latlng t)
     = Inl TypeError"
  by (simp add: TextTool_finish_def TextTool_add_def)

text \<open>
  C4. \<open>finish()\<close> on a draft that \<open>add\<close> has just made from the style snapshot throws a
  TypeError: the draft has the property \<open>value\<close> and no property \<open>text\<close>.
\<close>

theorem text_finish_after_add_throws:
  "TextTool_finish (TextTool_add st latlng t) = Inl TypeError"
  by (simp add: TextTool_finish_def TextTool_add_def)

subsection \<open>The hit detector scans committed collections\<close>

lemma extractList_items:
  "extractList t = Some list \<Longrightarrow> list = extractItems t"
  "extractList t = None \<Longrightarrow> extractItems t = []"
  by (cases t; simp)+

lemma first_hit_Some:
  "first_hit h m xs = Some i \<Longrightarrow> i < length xs \<and> hitTest h (xs ! i) m"
proof (induction xs arbitrary: i)
  case Nil
  then show ?case by simp
next
  case (Cons x xs)
  then show ?case by (auto split: if_splits)
qed

lemma first_hit_None: "first_hit h m xs = None \<longleftrightarrow> (\<forall>x \<in> set xs. \<not> hitTest h x m)"
  by (induction xs) auto

lemma pick_loop_Some:
  "pick_loop h m ts = Some (n, i, e) \<Longrightarrow>
   \<exists>t. (n, t) \<in> set ts \<and> i < length (extractItems t) \<and> extractItems t ! i = e
       \<and> hitTest h e m"
proof (induction ts)
  case Nil
  then show ?case by simp
next
  case (Cons nt ts)
  obtain k t where nt: "nt = (k, t)" by (cases nt)
  show ?case
  proof (cases "first_hit h m (extractItems t)")
    case None
    with Cons nt show ?thesis by auto
  next
    case (Some j)
    with Cons.prems nt have "n = k" "i = j" "e = extractItems t ! j" by auto
    with first_hit_Some [OF Some] nt show ?thesis by auto
  qed
qed

lemma pickForDelete_loop_Some:
  "pickForDelete_loop h m ts = Some (n, i) \<Longrightarrow>
   \<exists>t. (n, t) \<in> set ts \<and> i < length (extractItems t) \<and> hitTest h (extractItems t ! i) m"
proof (induction ts)
  case Nil
  then show ?case by simp
next
  case (Cons nt ts)
  obtain k t where nt: "nt = (k, t)" by (cases nt)
  show ?case
  proof (cases "extractList t")
    case None
    with Cons nt show ?thesis by auto
  next
    case (Some list)
    then have list: "list = extractItems t" by (rule extractList_items)
    show ?thesis
    proof (cases "first_hit h m list")
      case None
      with Cons nt Some show ?thesis by auto
    next
      case hit: (Some j)
      with Cons.prems nt Some have "n = k" "i = j" by auto
      with first_hit_Some [OF hit] nt list show ?thesis by auto
    qed
  qed
qed

lemma pickForDelete_loop_None:
  "pickForDelete_loop h m ts = None \<longleftrightarrow>
   (\<forall>(n, t) \<in> set ts. \<forall>x \<in> set (extractItems t). \<not> hitTest h x m)"
proof (induction ts)
  case Nil
  then show ?case by simp
next
  case (Cons nt ts)
  obtain k t where nt: "nt = (k, t)" by (cases nt)
  show ?case
  proof (cases "extractList t")
    case None
    with Cons nt extractList_items(2) [OF None] show ?thesis by simp
  next
    case (Some list)
    then have list: "list = extractItems t" by (rule extractList_items)
    show ?thesis
    proof (cases "first_hit h m list")
      case None
      then have fh: "first_hit h m (extractItems t) = None"
        using list by simp
      then have "\<forall>x \<in> set (extractItems t). \<not> hitTest h x m"
        by (simp add: first_hit_None)
      with Cons nt Some None show ?thesis by simp
    next
      case hit: (Some j)
      then have "\<not> (\<forall>x \<in> set (extractItems t). \<not> hitTest h x m)"
        using first_hit_None [of h m list] list by auto
      with hit nt Some show ?thesis by auto
    qed
  qed
qed

lemma extractItems_cancel: "extractItems (BaseTool_cancel t) = extractItems t"
  by (cases t) simp_all

lemma extractList_cancel: "extractList (BaseTool_cancel t) = extractList t"
  by (cases t) simp_all

lemma pick_loop_cancel:
  "pick_loop h m (map (\<lambda>(n, t). (n, BaseTool_cancel t)) ts) = pick_loop h m ts"
  by (induction ts) (auto simp: extractItems_cancel split: option.splits)

lemma pickForDelete_loop_cancel:
  "pickForDelete_loop h m (map (\<lambda>(n, t). (n, BaseTool_cancel t)) ts) = pickForDelete_loop h m ts"
  by (induction ts) (auto simp: extractList_cancel split: option.splits)

lemma hits_of_cancel: "hits_of test (n, BaseTool_cancel t) = hits_of test (n, t)"
  by (simp add: hits_of_def extractItems_cancel)

lemma hits_of_member:
  "(n, i, e) \<in> set (hits_of test (k, t)) \<Longrightarrow>
   n = k \<and> i < length (extractItems t) \<and> extractItems t ! i = e \<and> test e"
  by (auto simp: hits_of_def in_set_enumerate_eq)

lemma concat_hits_cancel:
  "concat (map (hits_of test) (map (\<lambda>(n, t). (n, BaseTool_cancel t)) ts))
     = concat (map (hits_of test) ts)"
  by (induction ts) (auto simp: hits_of_cancel)

lemma concat_hits_member:
  "(n, i, e) \<in> set (concat (map (hits_of test) ts)) \<Longrightarrow>
   \<exists>t. (n, t) \<in> set ts \<and> i < length (extractItems t) \<and> extractItems t ! i = e"
  by (auto dest!: hits_of_member)

text \<open>
  C10. \<open>pick\<close>, \<open>pickForDelete\<close>, \<open>pickAll\<close> and \<open>pickInBounds\<close> give the same
  result when every draft is cancelled first, whatever the drafts were, and every item
  they return is an item of the committed collection of one of the tools, at the index
  returned. A draft is therefore never picked.
\<close>

theorem picks_ignore_drafts:
  "pick h latlng (map (\<lambda>(n, t). (n, BaseTool_cancel t)) ts) = pick h latlng ts
   \<and> pickForDelete h latlng (map (\<lambda>(n, t). (n, BaseTool_cancel t)) ts) = pickForDelete h latlng ts
   \<and> pickAll h latlng (map (\<lambda>(n, t). (n, BaseTool_cancel t)) ts) = pickAll h latlng ts
   \<and> pickInBounds b (map (\<lambda>(n, t). (n, BaseTool_cancel t)) ts) = pickInBounds b ts
   \<and> (\<forall>n i e. pick h latlng ts = Some (n, i, e) \<longrightarrow>
         (\<exists>t. (n, t) \<in> set ts \<and> i < length (extractItems t) \<and> extractItems t ! i = e))
   \<and> (\<forall>n i. pickForDelete h latlng ts = Some (n, i) \<longrightarrow>
         (\<exists>t. (n, t) \<in> set ts \<and> i < length (extractItems t)))
   \<and> (\<forall>n i e. (n, i, e) \<in> set (pickAll h latlng ts) \<or> (n, i, e) \<in> set (pickInBounds b ts) \<longrightarrow>
         (\<exists>t. (n, t) \<in> set ts \<and> i < length (extractItems t) \<and> extractItems t ! i = e))"
proof (intro conjI allI impI)
  show "pick h latlng (map (\<lambda>(n, t). (n, BaseTool_cancel t)) ts) = pick h latlng ts"
    by (simp add: pick_def pick_loop_cancel)
  show "pickForDelete h latlng (map (\<lambda>(n, t). (n, BaseTool_cancel t)) ts) = pickForDelete h latlng ts"
    by (simp add: pickForDelete_def pickForDelete_loop_cancel)
  show "pickAll h latlng (map (\<lambda>(n, t). (n, BaseTool_cancel t)) ts) = pickAll h latlng ts"
    unfolding pickAll_def Let_def by (rule concat_hits_cancel)
  show "pickInBounds b (map (\<lambda>(n, t). (n, BaseTool_cancel t)) ts) = pickInBounds b ts"
    unfolding pickInBounds_def by (rule concat_hits_cancel)
next
  fix n i e
  assume "pick h latlng ts = Some (n, i, e)"
  then show "\<exists>t. (n, t) \<in> set ts \<and> i < length (extractItems t) \<and> extractItems t ! i = e"
    unfolding pick_def by (blast dest: pick_loop_Some)
next
  fix n i
  assume "pickForDelete h latlng ts = Some (n, i)"
  then show "\<exists>t. (n, t) \<in> set ts \<and> i < length (extractItems t)"
    unfolding pickForDelete_def by (blast dest: pickForDelete_loop_Some)
next
  fix n i e
  assume "(n, i, e) \<in> set (pickAll h latlng ts) \<or> (n, i, e) \<in> set (pickInBounds b ts)"
  then show "\<exists>t. (n, t) \<in> set ts \<and> i < length (extractItems t) \<and> extractItems t ! i = e"
    unfolding pickAll_def pickInBounds_def Let_def by (blast dest: concat_hits_member)
qed

lemma distancePx_less_iff:
  "distancePx a b < t \<longleftrightarrow> 0 < t \<and> (sx b - sx a) * (sx b - sx a) + (sy b - sy a) * (sy b - sy a) < t * t"
  using hypot_less_iff [of "sx b - sx a" "sy b - sy a" t]
  by (simp add: distancePx_def hypot_def Let_def)

theorem picks_ignore_drafts_witness:
  "pick flat_map \<lparr>lat = 10, lng = 10\<rparr> sample_tools = Some (''points'', 0, EPoint sample_point)
   \<and> pickForDelete flat_map \<lparr>lat = 10, lng = 10\<rparr> sample_tools = Some (''points'', 0)
   \<and> pick flat_map \<lparr>lat = 50, lng = 50\<rparr> sample_tools = None
   \<and> (\<exists>t. (''points'', t) \<in> set sample_tools \<and> 0 < length (extractItems t)
          \<and> extractItems t ! 0 = EPoint sample_point)"
proof -
  have q: "pick flat_map \<lparr>lat = 50, lng = 50\<rparr> sample_tools = None"
    by (simp add: pick_def sample_tools_def sample_point_def flat_map_def hitTestPoint_def
        distancePx_less_iff)
  have p: "pick flat_map \<lparr>lat = 10, lng = 10\<rparr> sample_tools
             = Some (''points'', 0, EPoint sample_point)"
    by (simp add: pick_def sample_tools_def sample_point_def flat_map_def hitTestPoint_def
        distancePx_less_iff)
  have d: "pickForDelete flat_map \<lparr>lat = 10, lng = 10\<rparr> sample_tools = Some (''points'', 0)"
    by (simp add: pickForDelete_def sample_tools_def sample_point_def flat_map_def
        hitTestPoint_def distancePx_less_iff)
  from picks_ignore_drafts [of flat_map "\<lparr>lat = 10, lng = 10\<rparr>" sample_tools] p
  have "\<exists>t. (''points'', t) \<in> set sample_tools \<and> 0 < length (extractItems t)
          \<and> extractItems t ! 0 = EPoint sample_point"
    by blast
  with p d q show ?thesis by simp
qed

subsection \<open>Registry lookups\<close>

lemma getAllTools_of_member:
  "(n, t) \<in> set (getAllTools_of reg) \<longleftrightarrow> (n, Some t) \<in> set reg"
  by (induction reg rule: getAllTools_of.induct) auto

lemma candidate_tools_member:
  "(n, t) \<in> set (candidate_tools tm) \<Longrightarrow> (n, Some t) \<in> set (tools tm)"
  by (auto simp: candidate_tools_def getAllTools_def getAllTools_of_member)

lemma candidate_tools_lookup:
  "distinct (map fst (tools tm)) \<Longrightarrow> (n, t) \<in> set (candidate_tools tm) \<Longrightarrow>
   map_of (tools tm) n = Some (Some t)"
  by (simp add: candidate_tools_member)

lemma map_of_update_tool:
  "map_of (tools (update_tool name f tm)) n =
     (if n = name then map_option (map_option f) (map_of (tools tm) n) else map_of (tools tm) n)"
proof -
  have "map_of (map (\<lambda>(k, v). if k = name then (k, map_option f v) else (k, v)) reg) n =
     (if n = name then map_option (map_option f) (map_of reg n) else map_of reg n)" for reg
    by (induction reg) auto
  then show ?thesis by (simp add: update_tool_def)
qed

lemma collection_update_tool:
  "collection (update_tool name f tm) n =
     (if n = name
      then (case map_of (tools tm) n of Some (Some t) \<Rightarrow> extractItems (f t) | _ \<Rightarrow> [])
      else collection tm n)"
  by (auto simp: collection_def map_of_update_tool split: option.splits)

lemma extractItems_splice_tool:
  "extractItems (splice_tool i t) = splice1 i (extractItems t)"
  by (cases t) (simp_all add: splice1_def take_map drop_map)

subsection \<open>Deleting\<close>

text \<open>
  C8. When \<open>pickForDelete\<close> resolves a hit at index \<open>i\<close> of the collection of the tool
  \<open>name\<close>, the delete action removes the item at that index of that collection (an item
  under the pointer), keeps the other items of the collection in their order, and leaves
  every other collection as it was. When nothing is under the pointer, the registry is
  unchanged.
\<close>

theorem delete_removes_exactly_the_hit:
  assumes "distinct (map fst (tools tm))"
  shows "(\<forall>name i. pickForDelete h latlng (candidate_tools tm) = Some (name, i) \<longrightarrow>
            i < length (collection tm name)
            \<and> hitTest h (collection tm name ! i) (latLngToScreen h (lat latlng) (lng latlng))
            \<and> collection (DeleteTool_add h latlng tm) name
                = take i (collection tm name) @ drop (Suc i) (collection tm name)
            \<and> (\<forall>other. other \<noteq> name \<longrightarrow>
                  collection (DeleteTool_add h latlng tm) other = collection tm other))
       \<and> (pickForDelete h latlng (candidate_tools tm) = None \<longrightarrow>
            DeleteTool_add h latlng tm = tm)"
proof (intro conjI allI impI)
  fix name i
  assume hit: "pickForDelete h latlng (candidate_tools tm) = Some (name, i)"
  then obtain t where t: "(name, t) \<in> set (candidate_tools tm)"
      and i: "i < length (extractItems t)"
      and ht: "hitTest h (extractItems t ! i) (latLngToScreen h (lat latlng) (lng latlng))"
    unfolding pickForDelete_def by (blast dest: pickForDelete_loop_Some)
  from candidate_tools_lookup [OF assms t]
  have look: "map_of (tools tm) name = Some (Some t)" .
  then have col: "collection tm name = extractItems t"
    by (simp add: collection_def)
  from i col show "i < length (collection tm name)" by simp
  from ht col show "hitTest h (collection tm name ! i)
      (latLngToScreen h (lat latlng) (lng latlng))" by simp
  have del: "DeleteTool_add h latlng tm = update_tool name (splice_tool i) tm"
    using hit by (simp add: DeleteTool_add_def)
  show "collection (DeleteTool_add h latlng tm) name
          = take i (collection tm name) @ drop (Suc i) (collection tm name)"
    unfolding del
    by (simp add: collection_update_tool look col extractItems_splice_tool splice1_def)
  show "collection (DeleteTool_add h latlng tm) other = collection tm other"
    if "other \<noteq> name" for other
    unfolding del using that by (simp add: collection_update_tool)
next
  assume "pickForDelete h latlng (candidate_tools tm) = None"
  then show "DeleteTool_add h latlng tm = tm"
    by (simp add: DeleteTool_add_def)
qed

lemma candidate_tools_main_registry:
  "candidate_tools (main_registry pts lns pgs scs txs) =
     [(''points'', PointsTool pts), (''line'', PolylineTool lns), (''polygon'', PolygonTool pgs),
      (''sector'', SectorTool scs), (''text'', TextTool txs), (''delete'', DeleteTool)]"
  by (simp add: candidate_tools_def getAllTools_def main_registry_tools)

lemma distinct_main_registry: "distinct (map fst (tools (main_registry pts lns pgs scs txs)))"
  by (simp add: main_registry_tools)

theorem delete_removes_exactly_the_hit_witness:
  "collection (DeleteTool_add flat_map \<lparr>lat = 10, lng = 10\<rparr> sample_registry) ''points''
     = [EPoint (sample_point\<lparr>pt_lat := 200\<rparr>)]
   \<and> DeleteTool_add flat_map \<lparr>lat = 500, lng = 500\<rparr> sample_registry = sample_registry"
proof -
  have dist: "distinct (map fst (tools sample_registry))"
    by (simp add: sample_registry_def distinct_main_registry)
  have hit: "pickForDelete flat_map \<lparr>lat = 10, lng = 10\<rparr> (candidate_tools sample_registry)
      = Some (''points'', 0)"
    by (simp add: sample_registry_def candidate_tools_main_registry pickForDelete_def
        sample_point_def flat_map_def hitTestPoint_def distancePx_less_iff)
  have miss: "pickForDelete flat_map \<lparr>lat = 500, lng = 500\<rparr> (candidate_tools sample_registry)
      = None"
    by (simp add: sample_registry_def candidate_tools_main_registry pickForDelete_def
        sample_point_def flat_map_def hitTestPoint_def distancePx_less_iff)
  have col: "collection sample_registry ''points''
      = [EPoint sample_point, EPoint (sample_point\<lparr>pt_lat := 200\<rparr>)]"
    by (simp add: collection_def sample_registry_def main_registry_tools)
  from delete_removes_exactly_the_hit [OF dist, of flat_map "\<lparr>lat = 10, lng = 10\<rparr>"] hit
  have "collection (DeleteTool_add flat_map \<lparr>lat = 10, lng = 10\<rparr> sample_registry) ''points''
      = take 0 (collection sample_registry ''points'')
        @ drop (Suc 0) (collection sample_registry ''points'')"
    by blast
  moreover from delete_removes_exactly_the_hit [OF dist, of flat_map "\<lparr>lat = 500, lng = 500\<rparr>"] miss
  have "DeleteTool_add flat_map \<lparr>lat = 500, lng = 500\<rparr> sample_registry = sample_registry"
    by blast
  ultimately show ?thesis by (simp add: col)
qed

subsection \<open>Floating-point rounding\<close>














subsection \<open>Moving\<close>

























subsection \<open>Export and import\<close>

lemma getDrawingTools_main_registry:
  "getDrawingTools (main_registry pts lns pgs scs txs) =
     [(''points'', PointsTool pts), (''line'', PolylineTool lns), (''polygon'', PolygonTool pgs),
      (''sector'', SectorTool scs), (''text'', TextTool txs)]"
  by (simp add: getDrawingTools_def getAllTools_def main_registry_tools excludeNames_def)

lemma getAllTools_main_registry:
  "getAllTools (main_registry pts lns pgs scs txs) =
     [(''points'', PointsTool pts), (''line'', PolylineTool lns), (''polygon'', PolygonTool pgs),
      (''sector'', SectorTool scs), (''text'', TextTool txs), (''move'', MoveTool),
      (''delete'', DeleteTool)]"
  by (simp add: getAllTools_def main_registry_tools)

lemma update_main_registry:
  "update_tool ''points'' (\<lambda>t. PointsTool pts') (main_registry pts lns pgs scs txs)
     = main_registry pts' lns pgs scs txs"
  "update_tool ''line'' (\<lambda>t. PolylineTool lns') (main_registry pts lns pgs scs txs)
     = main_registry pts lns' pgs scs txs"
  "update_tool ''polygon'' (\<lambda>t. PolygonTool pgs') (main_registry pts lns pgs scs txs)
     = main_registry pts lns pgs' scs txs"
  "update_tool ''sector'' (\<lambda>t. SectorTool scs') (main_registry pts lns pgs scs txs)
     = main_registry pts lns pgs scs' txs"
  "update_tool ''text'' (\<lambda>t. TextTool txs') (main_registry pts lns pgs scs txs)
     = main_registry pts lns pgs scs txs'"
  by (simp_all add: update_tool_def main_registry_def register_def ToolManager_new_def)

lemma import_point_feature:
  "importGeoJSON_loop
     (\<lparr>geometry = GPoint c,
       properties = no_properties\<lparr>prop_elevation := Some e, prop_color := Some col,
                                   prop_symbol := Some smb\<rparr>\<rparr> # fs)
     (main_registry pts lns pgs scs txs) k
   = importGeoJSON_loop fs
       (main_registry (pts\<lparr>points := points pts @
          [\<lparr>pt_lat = snd c, pt_lng = fst c, pt_elev = e, pt_color = col, pt_symbol = smb\<rparr>]\<rparr>)
          lns pgs scs txs) (k + 1)"
  by (simp add: getAllTools_main_registry PointsTool_accepts_def PointsTool_fromGeoJSON_def
      no_properties_def nullish_default_def update_main_registry)

lemma import_line_feature:
  "importGeoJSON_loop
     (\<lparr>geometry = GLineString cs,
       properties = no_properties\<lparr>prop_color := Some col, prop_style := Some sty,
                                   prop_distance := Some d\<rparr>\<rparr> # fs)
     (main_registry pts lns pgs scs txs) k
   = importGeoJSON_loop fs
       (main_registry pts (lns\<lparr>lines := lines lns @
          [\<lparr>ln_points = map (\<lambda>c. \<lparr>lat = snd c, lng = fst c, elev = None\<rparr>) cs,
            ln_color = or_string (Some col) ''black'',
            ln_style = or_string (Some sty) ''solid''\<rparr>]\<rparr>) pgs scs txs) (k + 1)"
  by (simp add: getAllTools_main_registry PointsTool_accepts_def PolylineTool_accepts_def
      PolylineTool_fromGeoJSON_def no_properties_def update_main_registry)

lemma import_polygon_feature:
  "importGeoJSON_loop
     (\<lparr>geometry = GPolygon [ring],
       properties = no_properties\<lparr>prop_color := Some col, prop_alpha := Some al,
                                   prop_area := Some ar\<rparr>\<rparr> # fs)
     (main_registry pts lns pgs scs txs) k
   = importGeoJSON_loop fs
       (main_registry pts lns (pgs\<lparr>polygons := polygons pgs @
          [\<lparr>pg_points = map (\<lambda>c. \<lparr>lat = snd c, lng = fst c\<rparr>) (butlast ring),
            pg_color = col, pg_alpha = al\<rparr>]\<rparr>) scs txs) (k + 1)"
  by (simp add: getAllTools_main_registry PointsTool_accepts_def PolylineTool_accepts_def
      PolygonTool_accepts_def PolygonTool_fromGeoJSON_def no_properties_def nullish_default_def
      update_main_registry)

lemma import_sector_feature:
  "importGeoJSON_loop
     (\<lparr>geometry = GPolygon rings,
       properties = no_properties\<lparr>prop_type := Some ''sector'', prop_center := Some c,
                                   prop_radius := Some r, prop_bearing := Some b,
                                   prop_angle := Some a, prop_elevation := Some e,
                                   prop_color := Some col, prop_area := Some ar\<rparr>\<rparr> # fs)
     (main_registry pts lns pgs scs txs) k
   = importGeoJSON_loop fs
       (main_registry pts lns pgs (scs\<lparr>sectors := sectors scs @
          [\<lparr>sc_center = c, sc_radius = r, sc_bearing = b, sc_elev = e,
            sc_color = or_string (Some col) ''black'', sc_angle = a\<rparr>]\<rparr>) txs) (k + 1)"
  by (simp add: getAllTools_main_registry PointsTool_accepts_def PolylineTool_accepts_def
      PolygonTool_accepts_def SectorTool_accepts_def SectorTool_fromGeoJSON_def no_properties_def
      nullish_default_def update_main_registry)

lemma import_text_feature:
  "importGeoJSON_loop
     (\<lparr>geometry = GPoint c,
       properties = no_properties\<lparr>prop_type := Some ''text'', prop_text := txt,
                                   prop_color := Some col, prop_size := Some sz\<rparr>\<rparr> # fs)
     (main_registry pts lns pgs scs txs) k
   = importGeoJSON_loop fs
       (main_registry pts lns pgs scs (txs\<lparr>texts := texts txs @
          [\<lparr>tx_lat = snd c, tx_lng = fst c, tx_value = None, tx_text = txt,
            tx_color = or_string (Some col) ''black'', tx_size = or_number (Some sz) 14\<rparr>]\<rparr>))
       (k + 1)"
  by (simp add: getAllTools_main_registry PointsTool_accepts_def PolylineTool_accepts_def
      PolygonTool_accepts_def SectorTool_accepts_def TextTool_accepts_def
      TextTool_fromGeoJSON_def no_properties_def update_main_registry)

lemma collect_features_singletons:
  assumes "pg_points g = v # vs"
  shows "collect_features (getDrawingTools (registry_of [p] [l] [g] [s] [t])) =
     Inr [\<lparr>geometry = GPoint (pt_lng p, pt_lat p),
           properties = no_properties\<lparr>prop_elevation := Some (pt_elev p),
                                       prop_color := Some (pt_color p),
                                       prop_symbol := Some (pt_symbol p)\<rparr>\<rparr>,
          \<lparr>geometry = GLineString (map (\<lambda>p. (lng p, lat p)) (ln_points l)),
           properties = no_properties\<lparr>prop_color := Some (ln_color l),
                                       prop_style := Some (ln_style l),
                                       prop_distance := Some (polylineLength (ln_points l))\<rparr>\<rparr>,
          \<lparr>geometry = GPolygon [map (\<lambda>pt. (lng pt, lat pt)) (pg_points g) @ [(lng v, lat v)]],
           properties = no_properties\<lparr>prop_color := Some (pg_color g),
                                       prop_alpha := Some (pg_alpha g),
                                       prop_area := Some (polygonArea (pg_points g))\<rparr>\<rparr>,
          \<lparr>geometry = GPolygon [sectorCoordinates s],
           properties = no_properties\<lparr>prop_type := Some ''sector'',
                                       prop_center := Some (sc_center s),
                                       prop_radius := Some (sc_radius s),
                                       prop_bearing := Some (sc_bearing s),
                                       prop_angle := Some (sc_angle s),
                                       prop_elevation := Some (sc_elev s),
                                       prop_color := Some (sc_color s),
                                       prop_area := Some (pi * sc_radius s * sc_radius s
                                                          * (sc_angle s / 360))\<rparr>\<rparr>,
          \<lparr>geometry = GPoint (tx_lng t, tx_lat t),
           properties = no_properties\<lparr>prop_type := Some ''text'',
                                       prop_text := tx_text t,
                                       prop_color := Some (tx_color t),
                                       prop_size := Some (tx_size t)\<rparr>\<rparr>]"
  using assms
  by (simp add: registry_of_def getDrawingTools_main_registry PointsTool_toGeoJSON_def
      PolylineTool_toGeoJSON_def PolygonTool_toGeoJSON_def polygon_feature_def
      SectorTool_toGeoJSON_def TextTool_toGeoJSON_def)

lemma vertex_reimport:
  "map ((\<lambda>c. \<lparr>lat = snd c, lng = fst c, elev = None\<rparr>) \<circ> (\<lambda>p. (lng p, lat p))) vs
     = map (\<lambda>v. v\<lparr>elev := None\<rparr>) vs"
  for vs :: "vertex list"
  by (induction vs) simp_all

lemma latlng_reimport:
  "map ((\<lambda>c. \<lparr>lat = snd c, lng = fst c\<rparr>) \<circ> (\<lambda>pt. (lng pt, lat pt))) vs = vs"
  for vs :: "latlng list"
  by (induction vs) simp_all

lemma entity_records:
  "\<lparr>pt_lat = pt_lat p, pt_lng = pt_lng p, pt_elev = pt_elev p, pt_color = pt_color p,
    pt_symbol = pt_symbol p\<rparr> = p"
  "\<lparr>pg_points = pg_points g, pg_color = pg_color g, pg_alpha = pg_alpha g\<rparr> = g"
  "\<lparr>sc_center = sc_center s, sc_radius = sc_radius s, sc_bearing = sc_bearing s,
    sc_elev = sc_elev s, sc_color = c, sc_angle = sc_angle s\<rparr> = s\<lparr>sc_color := c\<rparr>"
  "\<lparr>tx_lat = tx_lat t, tx_lng = tx_lng t, tx_value = None, tx_text = tx_text t,
    tx_color = c, tx_size = z\<rparr> = t\<lparr>tx_value := None, tx_color := c, tx_size := z\<rparr>"
  for p :: point and g :: polygon and s :: sector and t :: text_item
  by simp_all

lemma roundtrip_singletons:
  assumes "pg_points g \<noteq> []"
  shows "roundtrip (registry_of [p] [l] [g] [s] [t]) =
     Some (registry_of [p] [reimported_line l] [g] [reimported_sector s] [reimported_text t])"
proof -
  from assms obtain v vs where g: "pg_points g = v # vs"
    by (cases "pg_points g") auto
  have fresh: "fresh_registry = registry_of [] [] [] [] []"
    by (simp add: fresh_registry_def registry_of_def)
  have ex: "IOManager_export (registry_of [p] [l] [g] [s] [t]) =
      Some \<lparr>doc_type = ''FeatureCollection'',
            features = projr (collect_features (getDrawingTools (registry_of [p] [l] [g] [s] [t])))\<rparr>"
    by (simp add: IOManager_export_def collect_features_singletons [OF g])
  have "importGeoJSON_loop
      (projr (collect_features (getDrawingTools (registry_of [p] [l] [g] [s] [t]))))
      (registry_of [] [] [] [] []) 0 =
      Inr (registry_of [p] [reimported_line l] [g] [reimported_sector s] [reimported_text t], 5)"
    apply (subst collect_features_singletons [OF g])
    apply (simp only: sum.sel registry_of_def import_point_feature import_line_feature
        import_polygon_feature import_sector_feature import_text_feature)
    apply (simp add: vertex_reimport latlng_reimport entity_records reimported_line_def
        reimported_sector_def reimported_text_def)
    done
  then show ?thesis
    by (simp add: roundtrip_def ex importGeoJSON_def fresh)
qed

lemma exported_elevations_singletons:
  assumes "pg_points g \<noteq> []"
  shows "exported_elevations (registry_of [p] [l] [g] [s] [t])
     = Some [Some (pt_elev p), None, None, Some (sc_elev s), None]"
proof -
  from assms obtain v vs where g: "pg_points g = v # vs"
    by (cases "pg_points g") auto
  show ?thesis
    by (simp add: exported_elevations_def IOManager_export_def collect_features_singletons [OF g]
        no_properties_def)
qed

lemma reimported_unchanged:
  "\<forall>v \<in> set (ln_points l). elev v = None \<Longrightarrow> ln_color l \<noteq> [] \<Longrightarrow> ln_style l \<noteq> [] \<Longrightarrow>
   reimported_line l = l"
  "sc_color s \<noteq> [] \<Longrightarrow> reimported_sector s = s"
  "tx_value t = None \<Longrightarrow> tx_color t \<noteq> [] \<Longrightarrow> tx_size t \<noteq> 0 \<Longrightarrow> reimported_text t = t"
  by (simp_all add: reimported_line_def reimported_sector_def reimported_text_def or_string_def
      or_number_def map_idI)

text \<open>
  C3, as stated, fails: a line whose first vertex has the elevation 120 comes back from
  export and import with the elevation \<open>null\<close> at that vertex.
\<close>

theorem roundtrip_drops_line_elevation:
  "roundtrip (registry_of [sample_point] [sample_line] [sample_polygon] [sample_sector]
                [sample_text])
     = Some (registry_of [sample_point] [sample_line_no_elevation] [sample_polygon]
               [sample_sector] [sample_text])
   \<and> roundtrip (registry_of [sample_point] [sample_line] [sample_polygon] [sample_sector]
                  [sample_text])
     \<noteq> Some (registry_of [sample_point] [sample_line] [sample_polygon] [sample_sector]
                 [sample_text])"
proof -
  have ne: "pg_points sample_polygon \<noteq> []"
    by (simp add: sample_polygon_def)
  have l: "reimported_line sample_line = sample_line_no_elevation"
    by (simp add: reimported_line_def sample_line_def sample_line_no_elevation_def or_string_def)
  have s: "reimported_sector sample_sector = sample_sector"
    by (simp add: reimported_sector_def sample_sector_def or_string_def)
  have t: "reimported_text sample_text = sample_text"
    by (simp add: reimported_text_def sample_text_def or_string_def or_number_def)
  have "sample_line_no_elevation \<noteq> sample_line"
    by (simp add: sample_line_def sample_line_no_elevation_def)
  then have "registry_of [sample_point] [sample_line_no_elevation] [sample_polygon]
        [sample_sector] [sample_text]
      \<noteq> registry_of [sample_point] [sample_line] [sample_polygon] [sample_sector] [sample_text]"
    by (simp add: registry_of_def main_registry_def register_def ToolManager_new_def)
  then show ?thesis
    by (simp add: roundtrip_singletons [OF ne] l s t)
qed

text \<open>
  C3, amended. For one point, one line of 3 vertices, one polygon of 4 vertices, one
  sector and one text: export and import into fresh tools reproduce the same entities,
  elevations of the point and of the sector included, provided that the vertices of the
  line have no elevation, that the colours of the line, the sector and the text and the
  style of the line are not empty, that the size of the text is not 0, and that the text
  has no property \<open>value\<close>. The exported point and sector features carry their
  elevation as an explicit property, \<open>null\<close> included; the other features carry none.
\<close>

theorem export_import_roundtrip:
  assumes "length (ln_points l) = 3" and "length (pg_points g) = 4"
    and "\<forall>v \<in> set (ln_points l). elev v = None"
    and "ln_color l \<noteq> []" and "ln_style l \<noteq> []" and "sc_color s \<noteq> []"
    and "tx_color t \<noteq> []" and "tx_size t \<noteq> 0" and "tx_value t = None"
  shows "roundtrip (registry_of [p] [l] [g] [s] [t]) = Some (registry_of [p] [l] [g] [s] [t])
       \<and> exported_elevations (registry_of [p] [l] [g] [s] [t])
           = Some [Some (pt_elev p), None, None, Some (sc_elev s), None]"
proof -
  from assms(2) have ne: "pg_points g \<noteq> []"
    by auto
  have "reimported_line l = l" "reimported_sector s = s" "reimported_text t = t"
    using assms by (simp_all add: reimported_unchanged)
  then show ?thesis
    by (simp add: roundtrip_singletons [OF ne] exported_elevations_singletons [OF ne])
qed

theorem export_import_roundtrip_witness:
  "roundtrip (registry_of [sample_point] [sample_line_no_elevation] [sample_polygon]
                [sample_sector] [sample_text])
     = Some (registry_of [sample_point] [sample_line_no_elevation] [sample_polygon]
               [sample_sector] [sample_text])
   \<and> exported_elevations (registry_of [sample_point] [sample_line_no_elevation] [sample_polygon]
                [sample_sector] [sample_text])
     = Some [Some None, None, None, Some None, None]"
proof -
  have "length (ln_points sample_line_no_elevation) = 3"
    and "length (pg_points sample_polygon) = 4"
    and "\<forall>v \<in> set (ln_points sample_line_no_elevation). elev v = None"
    and "ln_color sample_line_no_elevation \<noteq> []"
    and "ln_style sample_line_no_elevation \<noteq> []"
    and "sc_color sample_sector \<noteq> []"
    and "tx_color sample_text \<noteq> []" and "tx_size sample_text \<noteq> 0"
    and "tx_value sample_text = None"
    by (simp_all add: sample_line_no_elevation_def sample_polygon_def sample_sector_def
        sample_text_def)
  from export_import_roundtrip [OF this, of sample_point]
  show ?thesis
    by (simp add: sample_point_def sample_sector_def)
qed

end
